theory Spec2Isabelle
  imports Complex_Main "HOL-Library.Word"
begin

unbundle bit_operations_syntax

section \<open>JavaScript numbers\<close>

text \<open>
  The amplitudes of the simulator are pairs of JavaScript numbers, and the numbers with
  their operations are a parameter of the model: every function that computes with
  numbers takes the record \<open>A\<close> of the operations the code uses, on a type \<open>'n\<close> of
  numbers. What holds for every \<open>A\<close> holds for the doubles of the language, with their
  rounding, their infinities and their \<open>NaN\<close>. \<open>nan_num\<close> is the number that
  \<open>undefined\<close> converts to in an arithmetic operation, which is how \<open>NaN\<close> enters the
  program.
\<close>

record 'n arithmetic =
  add_num :: "'n \<Rightarrow> 'n \<Rightarrow> 'n"      \<comment> \<open>\<open>a + b\<close>\<close>
  sub_num :: "'n \<Rightarrow> 'n \<Rightarrow> 'n"      \<comment> \<open>\<open>a - b\<close>\<close>
  mul_num :: "'n \<Rightarrow> 'n \<Rightarrow> 'n"      \<comment> \<open>\<open>a * b\<close>\<close>
  div_num :: "'n \<Rightarrow> 'n \<Rightarrow> 'n"      \<comment> \<open>\<open>a / b\<close>\<close>
  sqrt_num :: "'n \<Rightarrow> 'n"           \<comment> \<open>\<open>Math.sqrt(a)\<close>\<close>
  abs_num :: "'n \<Rightarrow> 'n"            \<comment> \<open>\<open>Math.abs(a)\<close>\<close>
  lt_num :: "'n \<Rightarrow> 'n \<Rightarrow> bool"     \<comment> \<open>\<open>a < b\<close>\<close>
  gt_num :: "'n \<Rightarrow> 'n \<Rightarrow> bool"     \<comment> \<open>\<open>a > b\<close>\<close>
  eq0_num :: "'n \<Rightarrow> bool"          \<comment> \<open>\<open>a === 0\<close>\<close>
  zero_num :: 'n                   \<comment> \<open>\<open>0\<close>\<close>
  one_num :: 'n                    \<comment> \<open>\<open>1\<close>\<close>
  nan_num :: 'n                    \<comment> \<open>\<open>NaN\<close>\<close>
  tiny_num :: 'n                   \<comment> \<open>\<open>1e-10\<close>\<close>

text \<open>
  The examples are computed in the arithmetic \<open>exact\<close>: a number is a real or \<open>NaN\<close>,
  the operations on reals are exact, \<open>NaN\<close> is absorbing, and every comparison with
  \<open>NaN\<close> is false, as in the language.
\<close>

datatype jsnum = Num real | NaN

fun jadd :: "jsnum \<Rightarrow> jsnum \<Rightarrow> jsnum" where
  "jadd (Num a) (Num b) = Num (a + b)"
| "jadd _ _ = NaN"

fun jsub :: "jsnum \<Rightarrow> jsnum \<Rightarrow> jsnum" where
  "jsub (Num a) (Num b) = Num (a - b)"
| "jsub _ _ = NaN"

fun jmul :: "jsnum \<Rightarrow> jsnum \<Rightarrow> jsnum" where
  "jmul (Num a) (Num b) = Num (a * b)"
| "jmul _ _ = NaN"

text \<open>
  \<open>a / b\<close>. The only division of the modelled code is in \<open>ComplexNumber.divide\<close>, after
  the denominator has been compared with 0, so the quotient by \<open>Num 0\<close> (an infinity or
  \<open>NaN\<close> in the language) is never computed; it is \<open>NaN\<close> here.
\<close>

fun jdiv :: "jsnum \<Rightarrow> jsnum \<Rightarrow> jsnum" where
  "jdiv (Num a) (Num b) = (if b = 0 then NaN else Num (a / b))"
| "jdiv _ _ = NaN"

fun jsqrt :: "jsnum \<Rightarrow> jsnum" where
  "jsqrt (Num a) = (if a < 0 then NaN else Num (sqrt a))"
| "jsqrt NaN = NaN"

fun jabs :: "jsnum \<Rightarrow> jsnum" where
  "jabs (Num a) = Num \<bar>a\<bar>"
| "jabs NaN = NaN"

fun jlt :: "jsnum \<Rightarrow> jsnum \<Rightarrow> bool" where
  "jlt (Num a) (Num b) = (a < b)"
| "jlt _ _ = False"

fun jgt :: "jsnum \<Rightarrow> jsnum \<Rightarrow> bool" where
  "jgt (Num a) (Num b) = (a > b)"
| "jgt _ _ = False"

text \<open>\<open>x === 0\<close> on numbers.\<close>

fun is_zero_num :: "jsnum \<Rightarrow> bool" where
  "is_zero_num (Num a) = (a = 0)"
| "is_zero_num NaN = False"

definition exact :: "jsnum arithmetic" where
  "exact = \<lparr> add_num = jadd, sub_num = jsub, mul_num = jmul, div_num = jdiv, sqrt_num = jsqrt,
             abs_num = jabs, lt_num = jlt, gt_num = jgt, eq0_num = is_zero_num,
             zero_num = Num 0, one_num = Num 1, nan_num = NaN, tiny_num = Num (1 / 10 ^ 10) \<rparr>"

section \<open>Errors\<close>

text \<open>
  Every \<open>throw\<close> of the modelled code is a value of this type; the comment gives the
  message of the source. \<open>NotAFunction\<close> and \<open>UndefinedProperty\<close> are the
  \<open>TypeError\<close>s the language raises itself, on a call of a method the object does not
  have and on a property access on \<open>undefined\<close>.
\<close>

datatype error =
    DivisionByZero              \<comment> \<open>'Division by zero'\<close>
  | QubitIndexOutOfBounds       \<comment> \<open>'Qubit index ... out of bounds'\<close>
  | BasisStateOutOfBounds       \<comment> \<open>'Basis state index ... out of bounds'\<close>
  | GateMatrixShape             \<comment> \<open>'Gate matrix must be a ... array'\<close>
  | SameControlTarget           \<comment> \<open>'Control and target qubits must be different'\<close>
  | CannotExpand                \<comment> \<open>'Cannot expand state vector beyond ... qubits'\<close>
  | CannotAllocate              \<comment> \<open>'Cannot allocate more than ... qubits'\<close>
  | NotPositiveCount            \<comment> \<open>'Must allocate a positive number of qubits'\<close>
  | QubitNotFound               \<comment> \<open>'Qubit ... not found'\<close>
  | OutcomeNotBit               \<comment> \<open>'Outcome must be 0 or 1'\<close>
  | NotAFunction string         \<comment> \<open>TypeError: ... is not a function\<close>
  | UndefinedProperty string    \<comment> \<open>TypeError: cannot read properties of undefined\<close>
  | InvalidOpcode               \<comment> \<open>'Invalid opcode: ...'\<close>
  | UnknownOpcode               \<comment> \<open>'Unknown opcode: ...'\<close>
  | OutOfRange                  \<comment> \<open>RangeError of a Buffer read or write\<close>
  | OperandsNotSet              \<comment> \<open>'Operand values not set for ... operation'\<close>
  | ConditionNotSet             \<comment> \<open>'Condition at address ... not set'\<close>
  | NoValueAtAddress            \<comment> \<open>'No value at classical memory address ...'\<close>
  | NoBytecodeLoaded            \<comment> \<open>'No bytecode loaded'\<close>

section \<open>Complex scalar (src/utils/complex-math.js)\<close>

datatype 'n ComplexNumber = ComplexNumber (re: 'n) (im: 'n)

definition add :: "'n arithmetic \<Rightarrow> 'n ComplexNumber \<Rightarrow> 'n ComplexNumber \<Rightarrow> 'n ComplexNumber" where
  "add A this other =
     ComplexNumber (add_num A (re this) (re other)) (add_num A (im this) (im other))"

definition multiply ::
  "'n arithmetic \<Rightarrow> 'n ComplexNumber \<Rightarrow> 'n ComplexNumber \<Rightarrow> 'n ComplexNumber" where
  "multiply A this other = ComplexNumber
     (sub_num A (mul_num A (re this) (re other)) (mul_num A (im this) (im other)))
     (add_num A (mul_num A (re this) (im other)) (mul_num A (im this) (re other)))"

text \<open>
  The argument of \<open>divide\<close> is documented as a \<open>ComplexNumber\<close>, but both callers in
  the state vector pass a plain number. A number has no \<open>real\<close> and no \<open>imag\<close>
  property: both read as \<open>undefined\<close>, every product with them is \<open>NaN\<close>, the
  denominator is \<open>NaN\<close>, \<open>NaN === 0\<close> is false, and both quotients are \<open>NaN\<close>.
\<close>

datatype 'n divisor = Cx "'n ComplexNumber" | Number 'n

fun divide :: "'n arithmetic \<Rightarrow> 'n ComplexNumber \<Rightarrow> 'n divisor \<Rightarrow> error + 'n ComplexNumber" where
  "divide A this (Cx other) =
     (let denominator = add_num A (mul_num A (re other) (re other))
                                  (mul_num A (im other) (im other))
      in if eq0_num A denominator then Inl DivisionByZero
         else Inr (ComplexNumber
           (div_num A (add_num A (mul_num A (re this) (re other))
                                 (mul_num A (im this) (im other))) denominator)
           (div_num A (sub_num A (mul_num A (im this) (re other))
                                 (mul_num A (re this) (im other))) denominator)))"
| "divide A this (Number n) =
     (let denominator = add_num A (mul_num A (nan_num A) (nan_num A))
                                  (mul_num A (nan_num A) (nan_num A))
      in if eq0_num A denominator then Inl DivisionByZero
         else Inr (ComplexNumber
           (div_num A (add_num A (mul_num A (re this) (nan_num A))
                                 (mul_num A (im this) (nan_num A))) denominator)
           (div_num A (sub_num A (mul_num A (im this) (nan_num A))
                                 (mul_num A (re this) (nan_num A))) denominator)))"

definition magnitudeSquared :: "'n arithmetic \<Rightarrow> 'n ComplexNumber \<Rightarrow> 'n" where
  "magnitudeSquared A this =
     add_num A (mul_num A (re this) (re this)) (mul_num A (im this) (im this))"

text \<open>\<open>isZero(epsilon = 1e-10)\<close>, always called with the default tolerance.\<close>

definition isZero :: "'n arithmetic \<Rightarrow> 'n ComplexNumber \<Rightarrow> bool" where
  "isZero A this \<longleftrightarrow>
     lt_num A (abs_num A (re this)) (tiny_num A) \<and> lt_num A (abs_num A (im this)) (tiny_num A)"

text \<open>\<open>new ComplexNumber(0, 0)\<close> and \<open>new ComplexNumber(1, 0)\<close>.\<close>

definition complexZero :: "'n arithmetic \<Rightarrow> 'n ComplexNumber" where
  "complexZero A = ComplexNumber (zero_num A) (zero_num A)"

definition complexOne :: "'n arithmetic \<Rightarrow> 'n ComplexNumber" where
  "complexOne A = ComplexNumber (one_num A) (zero_num A)"

abbreviation czero :: "jsnum ComplexNumber" where
  "czero \<equiv> ComplexNumber (Num 0) (Num 0)"

abbreviation cone :: "jsnum ComplexNumber" where
  "cone \<equiv> ComplexNumber (Num 1) (Num 0)"

abbreviation cnan :: "jsnum ComplexNumber" where
  "cnan \<equiv> ComplexNumber NaN NaN"

section \<open>State vector (src/core/state-vector.js)\<close>

text \<open>
  Basis indices are naturals. The source computes \<open>(i >> k) & 1\<close> and \<open>i ^ (1 << k)\<close>
  on 32-bit integers; an array has fewer than \<open>2 ^ 32\<close> elements, so a state vector of
  \<open>2 ^ n\<close> amplitudes has \<open>n \<le> 31\<close>, every index is below \<open>2 ^ 31\<close> and every valid
  bit position below 31, where the 32-bit operations agree with those on naturals.
\<close>

record 'n StateVector =
  qubitCount :: nat
  stateVector :: "'n ComplexNumber list"
  precision :: 'n                            \<comment> \<open>\<open>options.precision\<close>\<close>
  maxQubits :: nat                           \<comment> \<open>\<open>options.maxQubits\<close>\<close>
  probabilityCache :: "(nat \<times> 'n) list"
  gateOperations :: nat                      \<comment> \<open>\<open>metrics.gateOperations\<close>\<close>
  stateVectorSize :: nat                     \<comment> \<open>\<open>metrics.stateVectorSize\<close>\<close>
  memoryUsage :: nat                         \<comment> \<open>\<open>metrics.memoryUsage\<close>\<close>

definition bitValue :: "nat \<Rightarrow> nat \<Rightarrow> nat" where
  \<comment> \<open>\<open>(i >> qubitIndex) & 1\<close>\<close>
  "bitValue qubitIndex i = (drop_bit qubitIndex i) AND 1"

definition flipBit :: "nat \<Rightarrow> nat \<Rightarrow> nat" where
  \<comment> \<open>\<open>i ^ (1 << qubitIndex)\<close>\<close>
  "flipBit qubitIndex i = i XOR (push_bit qubitIndex 1)"

definition zeros :: "'n arithmetic \<Rightarrow> nat \<Rightarrow> 'n ComplexNumber list" where
  "zeros A n = replicate n (complexZero A)"

definition initializeStateVector :: "'n arithmetic \<Rightarrow> nat \<Rightarrow> 'n ComplexNumber list" where
  "initializeStateVector A n = complexOne A # replicate (2 ^ n - 1) (complexZero A)"

text \<open>\<open>new StateVector(initialQubitCount, {precision, maxQubits})\<close>.\<close>

definition newStateVector :: "'n arithmetic \<Rightarrow> nat \<Rightarrow> 'n \<Rightarrow> nat \<Rightarrow> 'n StateVector" where
  "newStateVector A n eps maxq =
     \<lparr> qubitCount = n, stateVector = initializeStateVector A n, precision = eps,
       maxQubits = maxq, probabilityCache = [], gateOperations = 0,
       stateVectorSize = 2 ^ n, memoryUsage = 2 ^ n * 16 \<rparr>"

definition invalidateProbabilityCache :: "'n StateVector \<Rightarrow> 'n StateVector" where
  "invalidateProbabilityCache s = s\<lparr>probabilityCache := []\<rparr>"

definition updateMemoryUsage :: "'n StateVector \<Rightarrow> 'n StateVector" where
  "updateMemoryUsage s = s\<lparr>memoryUsage := length (stateVector s) * 16\<rparr>"

definition validateQubitIndex :: "'n StateVector \<Rightarrow> nat \<Rightarrow> bool" where
  \<comment> \<open>true when the source does not throw; a bit position is never negative here\<close>
  "validateQubitIndex s qubitIndex \<longleftrightarrow> qubitIndex < qubitCount s"

definition validateGateMatrix :: "'n ComplexNumber list list \<Rightarrow> nat \<Rightarrow> bool" where
  \<comment> \<open>the shape check; the unitarity check only logs a warning\<close>
  "validateGateMatrix gateMatrix n \<longleftrightarrow>
     length gateMatrix = n \<and> list_all (\<lambda>row. length row = n) gateMatrix"

text \<open>
  \<open>expandStateVector()\<close> empties the probability cache before it compares the sizes, so
  the state it leaves when it throws is returned with the error.
\<close>

definition expandStateVector ::
  "'n arithmetic \<Rightarrow> 'n StateVector \<Rightarrow> (error + unit) \<times> 'n StateVector" where
  "expandStateVector A s0 =
     (let s = invalidateProbabilityCache s0;
          oldSize = length (stateVector s);
          newSize = oldSize * 2
      in if newSize > 2 ^ maxQubits s then (Inl CannotExpand, s)
         else (Inr (), updateMemoryUsage
                (s\<lparr> stateVector := stateVector s @ zeros A oldSize,
                    qubitCount := qubitCount s + 1,
                    stateVectorSize := newSize \<rparr>)))"

text \<open>The sum of the squared magnitudes, accumulated from 0 in index order.\<close>

definition normSquared :: "'n arithmetic \<Rightarrow> 'n ComplexNumber list \<Rightarrow> 'n" where
  "normSquared A v = foldl (\<lambda>acc a. add_num A acc (magnitudeSquared A a)) (zero_num A) v"

text \<open>
  A loop that replaces each amplitude by the result of a fallible operation; the first
  exception ends it.
\<close>

fun mapE :: "('a \<Rightarrow> error + 'b) \<Rightarrow> 'a list \<Rightarrow> error + 'b list" where
  "mapE f [] = Inr []"
| "mapE f (x # xs) =
     (case f x of Inl e \<Rightarrow> Inl e
      | Inr y \<Rightarrow> (case mapE f xs of Inl e \<Rightarrow> Inl e | Inr ys \<Rightarrow> Inr (y # ys)))"

definition normalize :: "'n arithmetic \<Rightarrow> 'n StateVector \<Rightarrow> error + 'n StateVector" where
  "normalize A s =
     (let norm = sqrt_num A (normSquared A (stateVector s))
      in if gt_num A (abs_num A (sub_num A norm (one_num A))) (precision s)
         then (case mapE (\<lambda>a. divide A a (Number norm)) (stateVector s) of
                 Inl e \<Rightarrow> Inl e
               | Inr v \<Rightarrow> Inr (s\<lparr>stateVector := v\<rparr>))
         else Inr s)"

text \<open>
  \<open>measureQubit(qubitIndex)\<close>; \<open>u\<close> is the value \<open>Math.random()\<close> returns,
  \<open>0 \<le> u < 1\<close>.
\<close>

definition measureProbs :: "'n arithmetic \<Rightarrow> nat \<Rightarrow> 'n ComplexNumber list \<Rightarrow> 'n \<times> 'n" where
  "measureProbs A qubitIndex v =
     foldl (\<lambda>(prob0, prob1) i.
              if bitValue qubitIndex i = 0
              then (add_num A prob0 (magnitudeSquared A (v ! i)), prob1)
              else (prob0, add_num A prob1 (magnitudeSquared A (v ! i))))
           (zero_num A, zero_num A) [0..<length v]"

definition collapse ::
  "'n arithmetic \<Rightarrow> nat \<Rightarrow> nat \<Rightarrow> 'n ComplexNumber list \<Rightarrow> 'n ComplexNumber list \<times> 'n" where
  "collapse A qubitIndex outcome v =
     foldl (\<lambda>(new, normFactor) i.
              if bitValue qubitIndex i = outcome
              then (new[i := v ! i], add_num A normFactor (magnitudeSquared A (v ! i)))
              else (new, normFactor))
           (zeros A (length v), zero_num A) [0..<length v]"

definition measureQubit ::
  "'n arithmetic \<Rightarrow> 'n StateVector \<Rightarrow> nat \<Rightarrow> 'n \<Rightarrow> error + (nat \<times> 'n StateVector)" where
  "measureQubit A s0 qubitIndex u =
     (if \<not> validateQubitIndex s0 qubitIndex then Inl QubitIndexOutOfBounds
      else
        let s = invalidateProbabilityCache s0;
            (prob0, prob1) = measureProbs A qubitIndex (stateVector s);
            outcome = (if lt_num A u prob0 then 0 else 1);
            (new, normFactor) = collapse A qubitIndex outcome (stateVector s);
            normFactor' = sqrt_num A normFactor
        in case mapE (\<lambda>a. if \<not> isZero A a then divide A a (Number normFactor') else Inr a) new of
             Inl e \<Rightarrow> Inl e
           | Inr v \<Rightarrow> Inr (outcome, updateMemoryUsage (s\<lparr>stateVector := v\<rparr>)))"

text \<open>
  A loop whose body can throw: the accumulator is threaded through the elements until
  the first exception.
\<close>

fun foldE :: "('b \<Rightarrow> 'a \<Rightarrow> error + 'b) \<Rightarrow> 'b \<Rightarrow> 'a list \<Rightarrow> error + 'b" where
  "foldE f acc [] = Inr acc"
| "foldE f acc (x # xs) = (case f acc x of Inl e \<Rightarrow> Inl e | Inr acc' \<Rightarrow> foldE f acc' xs)"

text \<open>
  \<open>applySingleQubitGate(qubitIndex, gateMatrix)\<close>. One iteration of the main loop:
  \<open>v\<close> is \<open>this.stateVector\<close>, \<open>new\<close> the array being filled. Reading
  \<open>newStateVector[flippedIndex]\<close> beyond the array gives \<open>undefined\<close>, and the call of
  its \<open>add\<close> is a \<open>TypeError\<close>.
\<close>

definition singleQubitStep ::
  "'n arithmetic \<Rightarrow> nat \<Rightarrow> 'n ComplexNumber list list \<Rightarrow> 'n ComplexNumber list
   \<Rightarrow> 'n ComplexNumber list \<Rightarrow> nat \<Rightarrow> error + 'n ComplexNumber list" where
  "singleQubitStep A qubitIndex gateMatrix v new i =
     (let flippedIndex = flipBit qubitIndex i
      in if flippedIndex \<ge> length new then Inl (UndefinedProperty ''add'')
         else if bitValue qubitIndex i = 0 then
           (let new1 = new[i := add A (new ! i) (multiply A (v ! i) (gateMatrix ! 0 ! 0))]
            in Inr (new1[flippedIndex :=
                 add A (new1 ! flippedIndex) (multiply A (v ! i) (gateMatrix ! 1 ! 0))]))
         else
           (let new1 = new[flippedIndex :=
                 add A (new ! flippedIndex) (multiply A (v ! i) (gateMatrix ! 0 ! 1))]
            in Inr (new1[i := add A (new1 ! i) (multiply A (v ! i) (gateMatrix ! 1 ! 1))])))"

definition applySingleQubitGate ::
  "'n arithmetic \<Rightarrow> 'n StateVector \<Rightarrow> nat \<Rightarrow> 'n ComplexNumber list list
   \<Rightarrow> error + 'n StateVector" where
  "applySingleQubitGate A s0 qubitIndex gateMatrix =
     (if \<not> validateQubitIndex s0 qubitIndex then Inl QubitIndexOutOfBounds
      else if \<not> validateGateMatrix gateMatrix 2 then Inl GateMatrixShape
      else
        let s = invalidateProbabilityCache s0;
            stateSize = length (stateVector s)
        in case foldE (singleQubitStep A qubitIndex gateMatrix (stateVector s))
                  (zeros A stateSize) [0..<stateSize] of
             Inl e \<Rightarrow> Inl e
           | Inr new \<Rightarrow>
               (case normalize A (s\<lparr>stateVector := new\<rparr>) of
                  Inl e \<Rightarrow> Inl e
                | Inr s' \<Rightarrow>
                    Inr (updateMemoryUsage (s'\<lparr>gateOperations := gateOperations s' + 1\<rparr>))))"







text \<open>
  \<open>applyCNOT(controlQubitIndex, targetQubitIndex)\<close>, the fast path: no multiplication
  and no call of \<open>normalize\<close>. A write beyond the array would make it grow with
  holes, which a list of amplitudes cannot hold; it does not happen when the array has
  \<open>2 ^ qubitCount\<close> elements, and the model stops there with \<open>ArrayGrows\<close>.
\<close>

datatype 'a outcome = Done 'a | Threw error | ArrayGrows




definition getAmplitude :: "'n StateVector \<Rightarrow> nat \<Rightarrow> error + 'n ComplexNumber" where
  "getAmplitude s basisState =
     (if basisState \<ge> length (stateVector s) then Inl BasisStateOutOfBounds
      else Inr (stateVector s ! basisState))"

section \<open>Qubit registry (src/core/qubit-registry.js)\<close>

text \<open>
  A \<open>Map\<close> is an association list in insertion order: \<open>set\<close> overwrites the value of
  a key that is present and appends a new key. The keys of the registry and of the
  measurement store are the handles, which are strings; a lookup with a number finds
  nothing, whatever the map holds.
\<close>

datatype jskey = Str string | Idx nat

fun mapSet :: "(string \<times> 'v) list \<Rightarrow> string \<Rightarrow> 'v \<Rightarrow> (string \<times> 'v) list" where
  "mapSet [] k v = [(k, v)]"
| "mapSet ((k', v') # m) k v = (if k' = k then (k, v) # m else (k', v') # mapSet m k v)"

fun mapGet :: "(string \<times> 'v) list \<Rightarrow> jskey \<Rightarrow> 'v option" where
  "mapGet m (Str k) = map_of m k"
| "mapGet m (Idx i) = None"

record QubitRegistry =
  qubits :: "(string \<times> nat) list"
  entanglementGroups :: "(string \<times> string list) list"
  nextQubitIndex :: nat
  registryMaxQubits :: nat     \<comment> \<open>\<open>this.maxQubits\<close>: \<open>Number(process.env.QVM_MAX_QUBITS) || 32\<close>\<close>

record MeasurementEngine =
  measurementResults :: "(string \<times> nat) list"
  measurementHistory :: "(string \<times> nat \<times> nat) list"   \<comment> \<open>qubitId, result, timestamp\<close>
  totalMeasurements :: nat
  outcomeCounts0 :: nat
  outcomeCounts1 :: nat

text \<open>
  The registry, the gate executor and the measurement engine hold the same state vector
  object, and the engine holds the registry: the three are the fields of one machine
  (\<open>QuantumVirtualMachine\<close> in src/index.js). An operation returns its result, or the
  error it throws, together with the machine as it has left it.
\<close>

record 'n QVM =
  stateVectorObj :: "'n StateVector"
  qubitRegistry :: QubitRegistry
  measurementEngine :: MeasurementEngine

text \<open>
  \<open>initialize(config)\<close>: \<open>eps\<close> and \<open>maxq\<close> are \<open>config.precision\<close> and
  \<open>config.maxQubits\<close>, which go to the state vector only; \<open>regmax\<close> is the limit the
  registry reads from the environment.
\<close>

definition initialize :: "'n arithmetic \<Rightarrow> 'n \<Rightarrow> nat \<Rightarrow> nat \<Rightarrow> 'n QVM" where
  "initialize A eps maxq regmax =
     \<lparr> stateVectorObj = newStateVector A 0 eps maxq,
       qubitRegistry = \<lparr> qubits = [], entanglementGroups = [], nextQubitIndex = 0,
                         registryMaxQubits = regmax \<rparr>,
       measurementEngine = \<lparr> measurementResults = [], measurementHistory = [],
                             totalMeasurements = 0, outcomeCounts0 = 0, outcomeCounts1 = 0 \<rparr> \<rparr>"

text \<open>\<open>allocateQubit()\<close>; \<open>qubitId\<close> is the identifier \<open>uuidv4()\<close> returns.\<close>

definition allocateQubit ::
  "'n arithmetic \<Rightarrow> 'n QVM \<Rightarrow> string \<Rightarrow> (error + string) \<times> 'n QVM" where
  "allocateQubit A vm qubitId =
     (let r = qubitRegistry vm
      in if length (qubits r) \<ge> registryMaxQubits r then (Inl CannotAllocate, vm)
         else
           let qubitIndex = nextQubitIndex r;
               r1 = r\<lparr>nextQubitIndex := qubitIndex + 1,
                      qubits := mapSet (qubits r) qubitId qubitIndex\<rparr>
           in case expandStateVector A (stateVectorObj vm) of
                (Inl e, s) \<Rightarrow> (Inl e, vm\<lparr>qubitRegistry := r1, stateVectorObj := s\<rparr>)
              | (Inr _, s) \<Rightarrow>
                  (Inr qubitId,
                   vm\<lparr>qubitRegistry :=
                        r1\<lparr>entanglementGroups := mapSet (entanglementGroups r1) qubitId [qubitId]\<rparr>,
                      stateVectorObj := s\<rparr>))"

text \<open>
  \<open>allocateQubits(count)\<close>; \<open>ids i\<close> is the identifier of the \<open>i\<close>-th call of
  \<open>uuidv4()\<close>.
\<close>

fun allocateLoop :: "'n arithmetic \<Rightarrow> 'n QVM \<Rightarrow> (nat \<Rightarrow> string) \<Rightarrow> nat \<Rightarrow> nat \<Rightarrow> string list
    \<Rightarrow> (error + string list) \<times> 'n QVM" where
  "allocateLoop A vm ids i 0 qubitIds = (Inr qubitIds, vm)"
| "allocateLoop A vm ids i (Suc n) qubitIds =
     (case allocateQubit A vm (ids i) of
        (Inl e, vm') \<Rightarrow> (Inl e, vm')
      | (Inr q, vm') \<Rightarrow> allocateLoop A vm' ids (Suc i) n (qubitIds @ [q]))"

definition allocateQubits ::
  "'n arithmetic \<Rightarrow> 'n QVM \<Rightarrow> int \<Rightarrow> (nat \<Rightarrow> string) \<Rightarrow> (error + string list) \<times> 'n QVM" where
  "allocateQubits A vm count ids =
     (if count \<le> 0 then (Inl NotPositiveCount, vm)
      else allocateLoop A vm ids 0 (nat count) [])"

definition getQubitIndex :: "QubitRegistry \<Rightarrow> jskey \<Rightarrow> error + nat" where
  "getQubitIndex r qubitId =
     (case mapGet (qubits r) qubitId of None \<Rightarrow> Inl QubitNotFound | Some index \<Rightarrow> Inr index)"

definition getAllQubits :: "QubitRegistry \<Rightarrow> string list" where
  "getAllQubits r = map fst (qubits r)"

section \<open>Gate executor (src/core/gate-executor.js)\<close>

text \<open>
  \<open>applySWAP(qubitId1, qubitId2)\<close> resolves the two handles and calls
  \<open>this.stateVector.applySWAP(index1, index2)\<close>. The class \<open>StateVector\<close> defines
  \<open>setStateVector\<close>, \<open>initializeStateVector\<close>, \<open>expandStateVector\<close>,
  \<open>applySingleQubitGate\<close>, \<open>applyTwoQubitGate\<close>, \<open>applyCNOT\<close>, \<open>measureQubit\<close>,
  \<open>normalize\<close>, \<open>getAmplitude\<close>, \<open>getProbability\<close>, \<open>invalidateProbabilityCache\<close>,
  \<open>getStateVector\<close>, \<open>getQubitCount\<close>, \<open>reset\<close>, \<open>updateMemoryUsage\<close>,
  \<open>validateQubitIndex\<close> and \<open>validateGateMatrix\<close>, and no \<open>applySWAP\<close>: the call is a
  \<open>TypeError\<close>, before the metrics are updated.
\<close>

definition StateVector_methods :: "string list" where
  "StateVector_methods =
     [''setStateVector'', ''initializeStateVector'', ''expandStateVector'',
      ''applySingleQubitGate'', ''applyTwoQubitGate'', ''applyCNOT'', ''measureQubit'',
      ''normalize'', ''getAmplitude'', ''getProbability'', ''invalidateProbabilityCache'',
      ''getStateVector'', ''getQubitCount'', ''reset'', ''updateMemoryUsage'',
      ''validateQubitIndex'', ''validateGateMatrix'']"

definition applySWAP :: "'n QVM \<Rightarrow> string \<Rightarrow> string \<Rightarrow> (error + unit) \<times> 'n QVM" where
  "applySWAP vm qubitId1 qubitId2 =
     (case getQubitIndex (qubitRegistry vm) (Str qubitId1) of
        Inl e \<Rightarrow> (Inl e, vm)
      | Inr index1 \<Rightarrow>
          (case getQubitIndex (qubitRegistry vm) (Str qubitId2) of
             Inl e \<Rightarrow> (Inl e, vm)
           | Inr index2 \<Rightarrow> (Inl (NotAFunction ''this.stateVector.applySWAP''), vm)))"

section \<open>Measurement engine (src/core/measurement-engine.js)\<close>

definition getProbability :: "'n arithmetic \<Rightarrow> 'n QVM \<Rightarrow> string \<Rightarrow> nat \<Rightarrow> error + 'n" where
  "getProbability A vm qubitId outcome =
     (if outcome \<noteq> 0 \<and> outcome \<noteq> 1 then Inl OutcomeNotBit
      else case getQubitIndex (qubitRegistry vm) (Str qubitId) of
        Inl e \<Rightarrow> Inl e
      | Inr qubitIndex \<Rightarrow>
          foldE (\<lambda>probability i.
                   if bitValue qubitIndex i = outcome
                   then (case getAmplitude (stateVectorObj vm) i of
                           Inl e \<Rightarrow> Inl e
                         | Inr amplitude \<Rightarrow>
                             Inr (add_num A probability (magnitudeSquared A amplitude)))
                   else Inr probability)
                (zero_num A) [0..<2 ^ qubitCount (stateVectorObj vm)])"

text \<open>
  \<open>measureQubit(qubitId, nonCollapsing)\<close> of the engine; \<open>u\<close> is the value of
  \<open>Math.random()\<close> and \<open>now\<close> that of \<open>Date.now()\<close>. The state vector's
  \<open>measureQubit\<close> can only throw from its index check, before it has changed anything.
\<close>

definition engineMeasureQubit ::
  "'n arithmetic \<Rightarrow> 'n QVM \<Rightarrow> string \<Rightarrow> bool \<Rightarrow> 'n \<Rightarrow> nat \<Rightarrow> (error + nat) \<times> 'n QVM" where
  "engineMeasureQubit A vm qubitId nonCollapsing u now =
     (case getQubitIndex (qubitRegistry vm) (Str qubitId) of
        Inl e \<Rightarrow> (Inl e, vm)
      | Inr qubitIndex \<Rightarrow>
          if nonCollapsing then
            (case getProbability A vm qubitId 0 of
               Inl e \<Rightarrow> (Inl e, vm)
             | Inr prob0 \<Rightarrow>
                 (case getProbability A vm qubitId 1 of
                    Inl e \<Rightarrow> (Inl e, vm)
                  | Inr prob1 \<Rightarrow> (Inr (if lt_num A u prob0 then 0 else 1), vm)))
          else
            (case measureQubit A (stateVectorObj vm) qubitIndex u of
               Inl e \<Rightarrow> (Inl e, vm)
             | Inr (result, s) \<Rightarrow>
                 (let m = measurementEngine vm;
                      m' = m\<lparr>measurementResults := mapSet (measurementResults m) qubitId result,
                             measurementHistory := measurementHistory m @ [(qubitId, result, now)],
                             totalMeasurements := totalMeasurements m + 1,
                             outcomeCounts0 := outcomeCounts0 m + (if result = 0 then 1 else 0),
                             outcomeCounts1 := outcomeCounts1 m + (if result = 0 then 0 else 1)\<rparr>
                  in (Inr result, vm\<lparr>stateVectorObj := s, measurementEngine := m'\<rparr>))))"

text \<open>
  \<open>measureQubits(qubitIds, nonCollapsing)\<close>: the \<open>i\<close>-th measurement uses the
  \<open>i\<close>-th random number \<open>rnd i\<close> and the \<open>i\<close>-th clock value \<open>clock i\<close>.
\<close>

fun measureLoop ::
  "'n arithmetic \<Rightarrow> 'n QVM \<Rightarrow> string list \<Rightarrow> bool \<Rightarrow> (nat \<Rightarrow> 'n) \<Rightarrow> (nat \<Rightarrow> nat) \<Rightarrow> nat
    \<Rightarrow> (string \<times> nat) list \<Rightarrow> (error + (string \<times> nat) list) \<times> 'n QVM" where
  "measureLoop A vm [] nonCollapsing rnd clock i results = (Inr results, vm)"
| "measureLoop A vm (qubitId # rest) nonCollapsing rnd clock i results =
     (case engineMeasureQubit A vm qubitId nonCollapsing (rnd i) (clock i) of
        (Inl e, vm') \<Rightarrow> (Inl e, vm')
      | (Inr result, vm') \<Rightarrow>
          measureLoop A vm' rest nonCollapsing rnd clock (Suc i)
            (mapSet results qubitId result))"

definition measureQubits ::
  "'n arithmetic \<Rightarrow> 'n QVM \<Rightarrow> string list \<Rightarrow> bool \<Rightarrow> (nat \<Rightarrow> 'n) \<Rightarrow> (nat \<Rightarrow> nat)
   \<Rightarrow> (error + (string \<times> nat) list) \<times> 'n QVM" where
  "measureQubits A vm qubitIds nonCollapsing rnd clock =
     measureLoop A vm qubitIds nonCollapsing rnd clock 0 []"

text \<open>
  \<open>measureAllQubits()\<close>. \<open>[...qubitIds.entries()]\<close> is the list of the pairs
  \<open>[position in the array, handle]\<close>. The comparator of \<open>sort\<close> and the loop that
  builds the string both take the first component of a pair, the position, for the
  handle. The comparator is called as soon as the array has two elements; the sort is
  written as an insertion sort, and any other sort calls the comparator as well.
\<close>

definition comparePairs :: "QubitRegistry \<Rightarrow> nat \<times> string \<Rightarrow> nat \<times> string \<Rightarrow> error + int" where
  "comparePairs r a b =
     (case getQubitIndex r (Idx (fst a)) of
        Inl e \<Rightarrow> Inl e
      | Inr x \<Rightarrow> (case getQubitIndex r (Idx (fst b)) of
                    Inl e \<Rightarrow> Inl e
                  | Inr y \<Rightarrow> Inr (int x - int y)))"

fun insertE :: "('a \<Rightarrow> 'a \<Rightarrow> error + int) \<Rightarrow> 'a \<Rightarrow> 'a list \<Rightarrow> error + 'a list" where
  "insertE cmp x [] = Inr [x]"
| "insertE cmp x (y # ys) =
     (case cmp x y of
        Inl e \<Rightarrow> Inl e
      | Inr d \<Rightarrow> if d \<le> 0 then Inr (x # y # ys)
                 else (case insertE cmp x ys of Inl e \<Rightarrow> Inl e | Inr zs \<Rightarrow> Inr (y # zs)))"

fun sortE :: "('a \<Rightarrow> 'a \<Rightarrow> error + int) \<Rightarrow> 'a list \<Rightarrow> error + 'a list" where
  "sortE cmp [] = Inr []"
| "sortE cmp (x # xs) = (case sortE cmp xs of Inl e \<Rightarrow> Inl e | Inr ys \<Rightarrow> insertE cmp x ys)"

definition bitChar :: "nat \<Rightarrow> string" where
  \<comment> \<open>\<open>toString()\<close> of a measurement result\<close>
  "bitChar result = (if result = 0 then ''0'' else ''1'')"

definition measureAllQubits ::
  "'n arithmetic \<Rightarrow> 'n QVM \<Rightarrow> (nat \<Rightarrow> 'n) \<Rightarrow> (nat \<Rightarrow> nat) \<Rightarrow> (error + string) \<times> 'n QVM" where
  "measureAllQubits A vm rnd clock =
     (let qubitIds = getAllQubits (qubitRegistry vm)
      in case measureQubits A vm qubitIds False rnd clock of
           (Inl e, vm') \<Rightarrow> (Inl e, vm')
         | (Inr measurements, vm') \<Rightarrow>
             (case sortE (comparePairs (qubitRegistry vm')) (enumerate 0 qubitIds) of
                Inl e \<Rightarrow> (Inl e, vm')
              | Inr sortedPairs \<Rightarrow>
                  (case foldE (\<lambda>bitString pair.
                                 case mapGet measurements (Idx (fst pair)) of
                                   None \<Rightarrow> Inl (UndefinedProperty ''toString'')
                                 | Some result \<Rightarrow> Inr (bitString @ bitChar result))
                              [] sortedPairs of
                     Inl e \<Rightarrow> (Inl e, vm')
                   | Inr bitString \<Rightarrow> (Inr bitString, vm'))))"

section \<open>Gate catalog (src/utils/quantum-gates.js)\<close>

definition CNOT :: "'n arithmetic \<Rightarrow> 'n ComplexNumber list list" where
  "CNOT A = [[complexOne A, complexZero A, complexZero A, complexZero A],
             [complexZero A, complexOne A, complexZero A, complexZero A],
             [complexZero A, complexZero A, complexZero A, complexOne A],
             [complexZero A, complexZero A, complexOne A, complexZero A]]"

section \<open>QBC codec (src/types/qbc.js)\<close>

text \<open>
  A JavaScript value that occurs as an operand: \<open>Integer v\<close> is the number with the integer value
  \<open>v\<close>, \<open>Float32 w\<close> is the number whose value is the single-precision float with the bit
  pattern \<open>w\<close> (the form of an angle), and \<open>Undefined\<close> is \<open>undefined\<close>, which a read beyond the
  end of an array or of a buffer gives.
\<close>

datatype operand = Integer int | Float32 "32 word" | Undefined

record instruction =
  op :: int
  params :: "operand list"

subsection \<open>Single-precision floats\<close>

definition f32_exponent :: "32 word \<Rightarrow> nat" where
  "f32_exponent w = unat ((drop_bit 23 w) AND 0xFF)"

definition f32_mantissa :: "32 word \<Rightarrow> nat" where
  "f32_mantissa w = unat (w AND 0x7FFFFF)"

definition f32_negative :: "32 word \<Rightarrow> bool" where
  "f32_negative w = bit w 31"

definition f32_is_nan :: "32 word \<Rightarrow> bool" where
  "f32_is_nan w \<longleftrightarrow> f32_exponent w = 255 \<and> f32_mantissa w \<noteq> 0"

definition f32_is_inf :: "32 word \<Rightarrow> bool" where
  "f32_is_inf w \<longleftrightarrow> f32_exponent w = 255 \<and> f32_mantissa w = 0"

text \<open>The integer part of a finite float (0 for an infinity and for NaN).\<close>

definition f32_trunc :: "32 word \<Rightarrow> int" where
  "f32_trunc w =
     (let e = f32_exponent w;
          magnitude = (if e = 255 \<or> e < 127 then 0
                       else if e \<ge> 150 then (2 ^ 23 + f32_mantissa w) * 2 ^ (e - 150)
                       else (2 ^ 23 + f32_mantissa w) div 2 ^ (150 - e))
      in if f32_negative w then - int magnitude else int magnitude)"

fun bitLength :: "nat \<Rightarrow> nat" where
  "bitLength n = (if n = 0 then 0 else Suc (bitLength (n div 2)))"

definition f32_pack :: "bool \<Rightarrow> nat \<Rightarrow> nat \<Rightarrow> 32 word" where
  "f32_pack negative e m = (if negative then push_bit 31 1 else 0) OR push_bit 23 (of_nat e) OR of_nat m"

text \<open>The float nearest to an integer, ties to the even mantissa.\<close>

definition int_to_f32 :: "int \<Rightarrow> 32 word" where
  "int_to_f32 v =
     (if v = 0 then 0
      else
        let a = nat \<bar>v\<bar>;
            k = bitLength a - 1
        in if k \<le> 23 then f32_pack (v < 0) (k + 127) (a * 2 ^ (23 - k) - 2 ^ 23)
           else
             let sh = k - 23;
                 q = a div 2 ^ sh;
                 r = a mod 2 ^ sh;
                 half = 2 ^ (sh - 1);
                 q' = (if r > half \<or> (r = half \<and> odd q) then q + 1 else q);
                 k' = (if q' = 2 ^ 24 then k + 1 else k);
                 q'' = (if q' = 2 ^ 24 then 2 ^ 23 else q')
             in if k' + 127 \<ge> 255 then f32_pack (v < 0) 255 0
                else f32_pack (v < 0) (k' + 127) (q'' - 2 ^ 23))"

subsection \<open>Buffers\<close>

type_synonym buffer = "8 word list"

definition alloc :: "nat \<Rightarrow> buffer" where
  "alloc n = replicate n 0"

text \<open>\<open>buffer[i]\<close>\<close>

definition byteAt :: "buffer \<Rightarrow> nat \<Rightarrow> operand" where
  "byteAt buffer i = (if i < length buffer then Integer (uint (buffer ! i)) else Undefined)"

text \<open>\<open>params[i]\<close>\<close>

definition param :: "operand list \<Rightarrow> nat \<Rightarrow> operand" where
  "param ps i = (if i < length ps then ps ! i else Undefined)"

text \<open>The conversion of a stored element of a \<open>Uint8Array\<close>.\<close>

fun toUint8 :: "operand \<Rightarrow> 8 word" where
  "toUint8 (Integer v) = word_of_int v"
| "toUint8 (Float32 w) = word_of_int (f32_trunc w)"
| "toUint8 Undefined = 0"

text \<open>\<open>buffer[i] = value\<close>; a store beyond the end is ignored.\<close>

definition setByte :: "buffer \<Rightarrow> nat \<Rightarrow> operand \<Rightarrow> buffer" where
  "setByte buffer i v = buffer[i := toUint8 v]"

definition le32 :: "32 word \<Rightarrow> 8 word list" where
  "le32 w = [ucast w, ucast (drop_bit 8 w), ucast (drop_bit 16 w), ucast (drop_bit 24 w)]"

definition from_le32 :: "8 word \<Rightarrow> 8 word \<Rightarrow> 8 word \<Rightarrow> 8 word \<Rightarrow> 32 word" where
  "from_le32 b0 b1 b2 b3 =
     ucast b0 OR push_bit 8 (ucast b1) OR push_bit 16 (ucast b2) OR push_bit 24 (ucast b3)"

definition put4 :: "buffer \<Rightarrow> nat \<Rightarrow> 32 word \<Rightarrow> buffer" where
  "put4 buffer offset w =
     buffer[offset := le32 w ! 0, offset + 1 := le32 w ! 1, offset + 2 := le32 w ! 2,
            offset + 3 := le32 w ! 3]"

definition get4 :: "buffer \<Rightarrow> nat \<Rightarrow> 32 word" where
  "get4 buffer offset =
     from_le32 (buffer ! offset) (buffer ! (offset + 1)) (buffer ! (offset + 2))
       (buffer ! (offset + 3))"

text \<open>
  \<open>writeFloatLE\<close> converts its value to a number (\<open>undefined\<close> to NaN) and then to single
  precision; NaN is written with the pattern \<open>0x7FC00000\<close>.
\<close>

fun floatBits :: "operand \<Rightarrow> 32 word" where
  "floatBits (Integer v) = int_to_f32 v"
| "floatBits (Float32 w) = (if f32_is_nan w then 0x7FC00000 else w)"
| "floatBits Undefined = 0x7FC00000"

definition writeFloatLE :: "buffer \<Rightarrow> operand \<Rightarrow> nat \<Rightarrow> error + buffer" where
  "writeFloatLE buffer val offset =
     (if offset + 4 > length buffer then Inl OutOfRange
      else Inr (put4 buffer offset (floatBits val)))"

text \<open>
  \<open>writeUInt32LE\<close> and \<open>writeInt32LE\<close> convert their value to a number and refuse one outside the
  range; NaN is in no comparison outside of it and is written as 0.
\<close>

fun intBits :: "int \<Rightarrow> int \<Rightarrow> operand \<Rightarrow> error + 32 word" where
  "intBits lo hi (Integer v) = (if v > hi \<or> v < lo then Inl OutOfRange else Inr (word_of_int v))"
| "intBits lo hi (Float32 w) =
     (if f32_is_nan w then Inr 0
      else if f32_is_inf w then Inl OutOfRange
      else if f32_trunc w > hi \<or> f32_trunc w < lo then Inl OutOfRange
      else if lo = 0 \<and> f32_negative w \<and> (f32_exponent w \<noteq> 0 \<or> f32_mantissa w \<noteq> 0) then Inl OutOfRange
      else Inr (word_of_int (f32_trunc w)))"
| "intBits lo hi Undefined = Inr 0"

definition writeUInt32LE :: "buffer \<Rightarrow> operand \<Rightarrow> nat \<Rightarrow> error + buffer" where
  "writeUInt32LE buffer val offset =
     (case intBits 0 (2 ^ 32 - 1) val of
        Inl e \<Rightarrow> Inl e
      | Inr w \<Rightarrow> if offset + 4 > length buffer then Inl OutOfRange else Inr (put4 buffer offset w))"

definition writeInt32LE :: "buffer \<Rightarrow> operand \<Rightarrow> nat \<Rightarrow> error + buffer" where
  "writeInt32LE buffer val offset =
     (case intBits (- (2 ^ 31)) (2 ^ 31 - 1) val of
        Inl e \<Rightarrow> Inl e
      | Inr w \<Rightarrow> if offset + 4 > length buffer then Inl OutOfRange else Inr (put4 buffer offset w))"

definition readFloatLE :: "buffer \<Rightarrow> nat \<Rightarrow> error + 32 word" where
  "readFloatLE buffer offset =
     (if offset + 4 > length buffer then Inl OutOfRange else Inr (get4 buffer offset))"

definition readUInt32LE :: "buffer \<Rightarrow> nat \<Rightarrow> error + int" where
  "readUInt32LE buffer offset =
     (if offset + 4 > length buffer then Inl OutOfRange else Inr (uint (get4 buffer offset)))"

definition readInt32LE :: "buffer \<Rightarrow> nat \<Rightarrow> error + int" where
  "readInt32LE buffer offset =
     (if offset + 4 > length buffer then Inl OutOfRange else Inr (sint (get4 buffer offset)))"

subsection \<open>Opcodes (src/types/quantum-types.js)\<close>

definition QBCOpcode :: "int list" where
  "QBCOpcode =
     [0x01, 0x02,
      0x10, 0x11, 0x12, 0x13, 0x14, 0x15,
      0x20, 0x21, 0x22, 0x23,
      0x30, 0x31, 0x32, 0x33,
      0x40, 0x41,
      0x50, 0x51,
      0x60, 0x61,
      0x70, 0x71,
      0x80, 0x81, 0x82, 0x83,
      0x90, 0x91, 0x92, 0x93,
      0xA0, 0xA1, 0xA2, 0xA3,
      0xFF]"

text \<open>
  The three \<open>switch\<close> statements of the codec have the same case labels; \<open>switchCase\<close> is the
  group of labels that an opcode matches, and \<open>None\<close> stands for \<open>default\<close>.
\<close>

datatype opcase =
    QubitManagement      \<comment> \<open>ALLOCATE_QUBIT, DEALLOCATE_QUBIT\<close>
  | SingleQubitGates     \<comment> \<open>GATE_X, GATE_Y, GATE_Z, GATE_H, GATE_S, GATE_T\<close>
  | RotationGates        \<comment> \<open>GATE_RX, GATE_RY, GATE_RZ, GATE_PHASE\<close>
  | TwoQubitGates        \<comment> \<open>GATE_CNOT, GATE_CZ, GATE_SWAP, GATE_ISWAP\<close>
  | ThreeQubitGates      \<comment> \<open>GATE_TOFFOLI, GATE_FREDKIN\<close>
  | Measurement          \<comment> \<open>MEASURE_QUBIT\<close>
  | ConditionalJump      \<comment> \<open>CONDITIONAL_JUMP\<close>
  | Jump                 \<comment> \<open>JUMP\<close>
  | StoreClassical       \<comment> \<open>STORE_CLASSICAL\<close>
  | LoadClassical        \<comment> \<open>LOAD_CLASSICAL\<close>
  | BinaryOperations     \<comment> \<open>ADD, SUB, MUL, DIV, AND, OR, XOR, CMP_EQ, CMP_NEQ, CMP_LT, CMP_GT\<close>
  | UnaryOperations      \<comment> \<open>NOT_CLASSICAL\<close>
  | NoParameters         \<comment> \<open>END, MEASURE_ALL\<close>

definition switchCase :: "int \<Rightarrow> opcase option" where
  "switchCase opc =
     (if opc = 0x01 \<or> opc = 0x02 then Some QubitManagement
      else if opc = 0x10 \<or> opc = 0x11 \<or> opc = 0x12 \<or> opc = 0x13 \<or> opc = 0x14 \<or> opc = 0x15
        then Some SingleQubitGates
      else if opc = 0x20 \<or> opc = 0x21 \<or> opc = 0x22 \<or> opc = 0x23 then Some RotationGates
      else if opc = 0x30 \<or> opc = 0x31 \<or> opc = 0x32 \<or> opc = 0x33 then Some TwoQubitGates
      else if opc = 0x40 \<or> opc = 0x41 then Some ThreeQubitGates
      else if opc = 0x50 then Some Measurement
      else if opc = 0x60 then Some ConditionalJump
      else if opc = 0x61 then Some Jump
      else if opc = 0x70 then Some StoreClassical
      else if opc = 0x71 then Some LoadClassical
      else if opc = 0x80 \<or> opc = 0x81 \<or> opc = 0x82 \<or> opc = 0x83 \<or> opc = 0x90 \<or> opc = 0x91
              \<or> opc = 0x92 \<or> opc = 0xA0 \<or> opc = 0xA1 \<or> opc = 0xA2 \<or> opc = 0xA3
        then Some BinaryOperations
      else if opc = 0x93 then Some UnaryOperations
      else if opc = 0xFF \<or> opc = 0x51 then Some NoParameters
      else None)"

definition getParameterSize :: "int \<Rightarrow> operand list \<Rightarrow> error + nat" where
  "getParameterSize opc ps =
     (case switchCase opc of
        Some QubitManagement \<Rightarrow> Inr 1
      | Some SingleQubitGates \<Rightarrow> Inr 1
      | Some RotationGates \<Rightarrow> Inr 5
      | Some TwoQubitGates \<Rightarrow> Inr 2
      | Some ThreeQubitGates \<Rightarrow> Inr 3
      | Some Measurement \<Rightarrow> Inr 2
      | Some ConditionalJump \<Rightarrow> Inr 5
      | Some Jump \<Rightarrow> Inr 4
      | Some StoreClassical \<Rightarrow> Inr 5
      | Some LoadClassical \<Rightarrow> Inr 2
      | Some BinaryOperations \<Rightarrow> Inr 3
      | Some UnaryOperations \<Rightarrow> Inr 2
      | Some NoParameters \<Rightarrow> Inr 0
      | None \<Rightarrow> Inl UnknownOpcode)"

subsection \<open>Encoding and decoding of one instruction\<close>

text \<open>
  The opcode of an instruction is a number here, so the test of its type passes; \<open>offset\<close> is 1
  throughout \<open>encodeInstruction\<close>.
\<close>

definition encodeInstruction :: "instruction \<Rightarrow> error + buffer" where
  "encodeInstruction instr =
     (let opc = op instr; ps = params instr in
      if opc \<notin> set QBCOpcode then Inl InvalidOpcode
      else
        case getParameterSize opc ps of
          Inl e \<Rightarrow> Inl e
        | Inr paramSize \<Rightarrow>
            let buffer = (alloc (1 + paramSize))[0 := word_of_int opc] in
            case switchCase opc of
              Some QubitManagement \<Rightarrow> Inr (setByte buffer 1 (param ps 0))
            | Some SingleQubitGates \<Rightarrow> Inr (setByte buffer 1 (param ps 0))
            | Some RotationGates \<Rightarrow> writeFloatLE (setByte buffer 1 (param ps 0)) (param ps 1) 2
            | Some TwoQubitGates \<Rightarrow>
                Inr (setByte (setByte buffer 1 (param ps 0)) 2 (param ps 1))
            | Some ThreeQubitGates \<Rightarrow>
                Inr (setByte (setByte (setByte buffer 1 (param ps 0)) 2 (param ps 1)) 3 (param ps 2))
            | Some Measurement \<Rightarrow>
                Inr (setByte (setByte buffer 1 (param ps 0)) 2 (param ps 1))
            | Some ConditionalJump \<Rightarrow> writeUInt32LE (setByte buffer 1 (param ps 0)) (param ps 1) 2
            | Some Jump \<Rightarrow> writeUInt32LE buffer (param ps 0) 1
            | Some StoreClassical \<Rightarrow> writeInt32LE (setByte buffer 1 (param ps 0)) (param ps 1) 2
            | Some LoadClassical \<Rightarrow>
                Inr (setByte (setByte buffer 1 (param ps 0)) 2 (param ps 1))
            | Some BinaryOperations \<Rightarrow>
                Inr (setByte (setByte (setByte buffer 1 (param ps 0)) 2 (param ps 1)) 3 (param ps 2))
            | Some UnaryOperations \<Rightarrow>
                Inr (setByte (setByte buffer 1 (param ps 0)) 2 (param ps 1))
            | Some NoParameters \<Rightarrow> Inr buffer
            | None \<Rightarrow> Inl UnknownOpcode)"

text \<open>
  \<open>decodeInstruction\<close> returns the instruction and the number of bytes read. A missing opcode
  byte is \<open>undefined\<close> and matches no case label.
\<close>

definition decoded :: "int \<Rightarrow> operand list \<Rightarrow> nat \<Rightarrow> error + instruction \<times> nat" where
  "decoded opc ps bytesRead = Inr (\<lparr>op = opc, params = ps\<rparr>, bytesRead)"

definition decodeInstruction :: "buffer \<Rightarrow> nat \<Rightarrow> error + instruction \<times> nat" where
  "decodeInstruction buffer offset =
     (case byteAt buffer offset of
        Integer opc \<Rightarrow>
          (case switchCase opc of
             Some QubitManagement \<Rightarrow> decoded opc [byteAt buffer (offset + 1)] 2
           | Some SingleQubitGates \<Rightarrow> decoded opc [byteAt buffer (offset + 1)] 2
           | Some RotationGates \<Rightarrow>
               (case readFloatLE buffer (offset + 2) of
                  Inl e \<Rightarrow> Inl e
                | Inr angle \<Rightarrow> decoded opc [byteAt buffer (offset + 1), Float32 angle] 6)
           | Some TwoQubitGates \<Rightarrow>
               decoded opc [byteAt buffer (offset + 1), byteAt buffer (offset + 2)] 3
           | Some ThreeQubitGates \<Rightarrow>
               decoded opc [byteAt buffer (offset + 1), byteAt buffer (offset + 2),
                            byteAt buffer (offset + 3)] 4
           | Some Measurement \<Rightarrow>
               decoded opc [byteAt buffer (offset + 1), byteAt buffer (offset + 2)] 3
           | Some ConditionalJump \<Rightarrow>
               (case readUInt32LE buffer (offset + 2) of
                  Inl e \<Rightarrow> Inl e
                | Inr target \<Rightarrow> decoded opc [byteAt buffer (offset + 1), Integer target] 6)
           | Some Jump \<Rightarrow>
               (case readUInt32LE buffer (offset + 1) of
                  Inl e \<Rightarrow> Inl e
                | Inr target \<Rightarrow> decoded opc [Integer target] 5)
           | Some StoreClassical \<Rightarrow>
               (case readInt32LE buffer (offset + 2) of
                  Inl e \<Rightarrow> Inl e
                | Inr val \<Rightarrow> decoded opc [byteAt buffer (offset + 1), Integer val] 6)
           | Some LoadClassical \<Rightarrow>
               decoded opc [byteAt buffer (offset + 1), byteAt buffer (offset + 2)] 3
           | Some BinaryOperations \<Rightarrow>
               decoded opc [byteAt buffer (offset + 1), byteAt buffer (offset + 2),
                            byteAt buffer (offset + 3)] 4
           | Some UnaryOperations \<Rightarrow>
               decoded opc [byteAt buffer (offset + 1), byteAt buffer (offset + 2)] 3
           | Some NoParameters \<Rightarrow> decoded opc [] 1
           | None \<Rightarrow> Inl UnknownOpcode)
      | _ \<Rightarrow> Inl UnknownOpcode)"

subsection \<open>The instruction table\<close>

text \<open>
  The instruction table of the specification, row by row: the opcode and the operands
  that follow it. A qubit reference or a classical address is a byte, an angle is a
  single-precision float that is a number, a jump target is an unsigned and a stored value
  a signed 32-bit integer.
\<close>

datatype field = Byte | Angle | Target | Value

fun inField :: "field \<Rightarrow> operand \<Rightarrow> bool" where
  "inField Byte (Integer v) = (0 \<le> v \<and> v \<le> 255)"
| "inField Angle (Float32 w) = (\<not> f32_is_nan w)"
| "inField Target (Integer v) = (0 \<le> v \<and> v < 2 ^ 32)"
| "inField Value (Integer v) = (- (2 ^ 31) \<le> v \<and> v < 2 ^ 31)"
| "inField _ _ = False"

definition instructionTable :: "(int \<times> field list) list" where
  "instructionTable =
     [(0x01, [Byte]),                 \<comment> \<open>ALLOC q\<close>
      (0x02, [Byte]),                 \<comment> \<open>DEALLOC q\<close>
      (0x10, [Byte]),                 \<comment> \<open>X q\<close>
      (0x11, [Byte]),                 \<comment> \<open>Y q\<close>
      (0x12, [Byte]),                 \<comment> \<open>Z q\<close>
      (0x13, [Byte]),                 \<comment> \<open>H q\<close>
      (0x14, [Byte]),                 \<comment> \<open>S q\<close>
      (0x15, [Byte]),                 \<comment> \<open>T q\<close>
      (0x20, [Byte, Angle]),          \<comment> \<open>RX q, angle\<close>
      (0x21, [Byte, Angle]),          \<comment> \<open>RY q, angle\<close>
      (0x22, [Byte, Angle]),          \<comment> \<open>RZ q, angle\<close>
      (0x23, [Byte, Angle]),          \<comment> \<open>PHASE q, angle\<close>
      (0x30, [Byte, Byte]),           \<comment> \<open>CNOT q1, q2\<close>
      (0x31, [Byte, Byte]),           \<comment> \<open>CZ q1, q2\<close>
      (0x32, [Byte, Byte]),           \<comment> \<open>SWAP q1, q2\<close>
      (0x33, [Byte, Byte]),           \<comment> \<open>iSWAP q1, q2\<close>
      (0x40, [Byte, Byte, Byte]),     \<comment> \<open>TOFFOLI q1, q2, q3\<close>
      (0x41, [Byte, Byte, Byte]),     \<comment> \<open>FREDKIN q1, q2, q3\<close>
      (0x50, [Byte, Byte]),           \<comment> \<open>MEASURE q, dst\<close>
      (0x51, []),                     \<comment> \<open>MEASURE_ALL\<close>
      (0x60, [Byte, Target]),         \<comment> \<open>CJMP cond, target\<close>
      (0x61, [Target]),               \<comment> \<open>JMP target\<close>
      (0x70, [Byte, Value]),          \<comment> \<open>STORE addr, value\<close>
      (0x71, [Byte, Byte]),           \<comment> \<open>LOAD src, dst\<close>
      (0x80, [Byte, Byte, Byte]),     \<comment> \<open>ADD a, b, r\<close>
      (0x81, [Byte, Byte, Byte]),     \<comment> \<open>SUB a, b, r\<close>
      (0x82, [Byte, Byte, Byte]),     \<comment> \<open>MUL a, b, r\<close>
      (0x83, [Byte, Byte, Byte]),     \<comment> \<open>DIV a, b, r\<close>
      (0x90, [Byte, Byte, Byte]),     \<comment> \<open>AND a, b, r\<close>
      (0x91, [Byte, Byte, Byte]),     \<comment> \<open>OR a, b, r\<close>
      (0x92, [Byte, Byte, Byte]),     \<comment> \<open>XOR a, b, r\<close>
      (0x93, [Byte, Byte]),           \<comment> \<open>NOT a, r\<close>
      (0xA0, [Byte, Byte, Byte]),     \<comment> \<open>EQ a, b, r\<close>
      (0xA1, [Byte, Byte, Byte]),     \<comment> \<open>NEQ a, b, r\<close>
      (0xA2, [Byte, Byte, Byte]),     \<comment> \<open>LT a, b, r\<close>
      (0xA3, [Byte, Byte, Byte]),     \<comment> \<open>GT a, b, r\<close>
      (0xFF, [])]                     \<comment> \<open>END\<close>"

definition operandFields :: "int \<Rightarrow> field list" where
  "operandFields opc = (case map_of instructionTable opc of Some row \<Rightarrow> row | None \<Rightarrow> [])"

text \<open>
  An instruction of the table: its opcode is listed, and its parameters are the operands
  of the row of the opcode.
\<close>

definition tableInstruction :: "instruction \<Rightarrow> bool" where
  "tableInstruction instr \<longleftrightarrow>
     op instr \<in> set QBCOpcode
     \<and> list_all2 inField (operandFields (op instr)) (params instr)"

section \<open>Bytecode interpreter (src/core/bytecode-interpreter.js)\<close>

text \<open>
  The classical memory is a \<open>Map\<close> from the address bytes read from the bytecode (\<open>undefined\<close>
  beyond its end) to numbers. Every number that reaches it is an integer: \<open>STORE\<close> writes a
  signed 32-bit integer, a measurement writes 0 or 1, and the operations map integers to
  integers. The numbers are modelled as unbounded integers, which is exact as long as a result
  is below \<open>2 ^ 53\<close> in magnitude; the rounding of larger results is not modelled.

  The registry, the gate executor, the measurement engine and the map of qubit references are
  the component \<open>quantumState\<close>; the handlers of the quantum instructions are a parameter of the
  step function and act on the program counter, the classical memory and this component.
  The hooks are not installed and no timeout is set.
\<close>

type_synonym memory = "operand \<rightharpoonup> int"

record 'q BytecodeInterpreter =
  pc :: nat
  bytecode :: buffer
  running :: bool
  error :: "error option"
  classicalMemory :: memory
  quantumState :: 'q
  instructionsExecuted :: nat
  classicalOps :: nat
  quantumOps :: nat
  jumpOps :: nat

type_synonym 'q handlers =
  "int \<Rightarrow> buffer \<Rightarrow> nat \<times> memory \<times> 'q \<Rightarrow> (error + unit) \<times> nat \<times> memory \<times> 'q"

definition BytecodeInterpreter :: "'q \<Rightarrow> 'q BytecodeInterpreter" where
  "BytecodeInterpreter q =
     \<lparr>pc = 0, bytecode = alloc 0, running = False, error = None, classicalMemory = Map.empty,
      quantumState = q, instructionsExecuted = 0, classicalOps = 0, quantumOps = 0, jumpOps = 0\<rparr>"

definition loadBytecode :: "'q BytecodeInterpreter \<Rightarrow> buffer \<Rightarrow> 'q BytecodeInterpreter" where
  "loadBytecode vm code = vm\<lparr>bytecode := code, pc := 0, error := None, classicalMemory := Map.empty\<rparr>"

definition quantumInstruction ::
  "'q handlers \<Rightarrow> int \<Rightarrow> 'q BytecodeInterpreter \<Rightarrow> (error + unit) \<times> 'q BytecodeInterpreter" where
  "quantumInstruction quantum opcode vm =
     (case quantum opcode (bytecode vm) (pc vm, classicalMemory vm, quantumState vm) of
        (r, pc', memory', q') \<Rightarrow> (r, vm\<lparr>pc := pc', classicalMemory := memory', quantumState := q'\<rparr>))"

definition executeConditionalJump ::
  "'q BytecodeInterpreter \<Rightarrow> (error + unit) \<times> 'q BytecodeInterpreter" where
  "executeConditionalJump vm =
     (let conditionAddr = byteAt (bytecode vm) (pc vm);
          vm1 = vm\<lparr>pc := pc vm + 1\<rparr>
      in case readUInt32LE (bytecode vm1) (pc vm1) of
           Inl e \<Rightarrow> (Inl e, vm1)
         | Inr targetAddr \<Rightarrow>
             let vm2 = vm1\<lparr>pc := pc vm1 + 4\<rparr>
             in case classicalMemory vm2 conditionAddr of
                  None \<Rightarrow> (Inl ConditionNotSet, vm2)
                | Some condition \<Rightarrow>
                    if condition \<noteq> 0 then (Inr (), vm2\<lparr>pc := nat targetAddr\<rparr>)
                    else (Inr (), vm2))"

definition executeJump :: "'q BytecodeInterpreter \<Rightarrow> (error + unit) \<times> 'q BytecodeInterpreter" where
  "executeJump vm =
     (case readUInt32LE (bytecode vm) (pc vm) of
        Inl e \<Rightarrow> (Inl e, vm)
      | Inr targetAddr \<Rightarrow> (Inr (), vm\<lparr>pc := nat targetAddr\<rparr>))"

definition executeStoreClassical ::
  "'q BytecodeInterpreter \<Rightarrow> (error + unit) \<times> 'q BytecodeInterpreter" where
  "executeStoreClassical vm =
     (let addr = byteAt (bytecode vm) (pc vm);
          vm1 = vm\<lparr>pc := pc vm + 1\<rparr>
      in case readInt32LE (bytecode vm1) (pc vm1) of
           Inl e \<Rightarrow> (Inl e, vm1)
         | Inr val \<Rightarrow>
             (Inr (), vm1\<lparr>pc := pc vm1 + 4, classicalMemory := (classicalMemory vm1)(addr \<mapsto> val)\<rparr>))"

definition executeLoadClassical ::
  "'q BytecodeInterpreter \<Rightarrow> (error + unit) \<times> 'q BytecodeInterpreter" where
  "executeLoadClassical vm =
     (let sourceAddr = byteAt (bytecode vm) (pc vm);
          destAddr = byteAt (bytecode vm) (pc vm + 1);
          vm1 = vm\<lparr>pc := pc vm + 2\<rparr>
      in case classicalMemory vm1 sourceAddr of
           None \<Rightarrow> (Inl NoValueAtAddress, vm1)
         | Some val \<Rightarrow> (Inr (), vm1\<lparr>classicalMemory := (classicalMemory vm1)(destAddr \<mapsto> val)\<rparr>))"

datatype operation = ADD | SUB | MUL | DIV | BitAND | BitOR | BitXOR | BitNOT

text \<open>The bitwise operators convert their operands to signed 32-bit integers.\<close>

definition toInt32 :: "int \<Rightarrow> 32 word" where
  "toInt32 v = word_of_int v"

definition executeClassicalOperation ::
  "operation \<Rightarrow> 'q BytecodeInterpreter \<Rightarrow> (error + unit) \<times> 'q BytecodeInterpreter" where
  "executeClassicalOperation operation vm =
     (let aAddr = byteAt (bytecode vm) (pc vm);
          bAddr = byteAt (bytecode vm) (pc vm + 1);
          resultAddr = byteAt (bytecode vm) (pc vm + 2);
          vm1 = vm\<lparr>pc := pc vm + 3\<rparr>;
          setResult = (\<lambda>result. (Inr (), vm1\<lparr>classicalMemory := (classicalMemory vm1)(resultAddr \<mapsto> result)\<rparr>))
      in case (classicalMemory vm1 aAddr, classicalMemory vm1 bAddr) of
           (Some a, Some b) \<Rightarrow>
             (case operation of
                ADD \<Rightarrow> setResult (a + b)
              | SUB \<Rightarrow> setResult (a - b)
              | MUL \<Rightarrow> setResult (a * b)
              | DIV \<Rightarrow> if b = 0 then (Inl DivisionByZero, vm1)
                       else setResult \<lfloor>real_of_int a / real_of_int b\<rfloor>
              | BitAND \<Rightarrow> setResult (sint (toInt32 a AND toInt32 b))
              | BitOR \<Rightarrow> setResult (sint (toInt32 a OR toInt32 b))
              | BitXOR \<Rightarrow> setResult (sint (toInt32 a XOR toInt32 b))
              | BitNOT \<Rightarrow> setResult (sint (NOT (toInt32 a))))
         | _ \<Rightarrow> (Inl OperandsNotSet, vm1))"

datatype comparison = EQ | NEQ | LT | GT

definition executeClassicalComparison ::
  "comparison \<Rightarrow> 'q BytecodeInterpreter \<Rightarrow> (error + unit) \<times> 'q BytecodeInterpreter" where
  "executeClassicalComparison comparison vm =
     (let aAddr = byteAt (bytecode vm) (pc vm);
          bAddr = byteAt (bytecode vm) (pc vm + 1);
          resultAddr = byteAt (bytecode vm) (pc vm + 2);
          vm1 = vm\<lparr>pc := pc vm + 3\<rparr>;
          setResult = (\<lambda>result. (Inr (), vm1\<lparr>classicalMemory := (classicalMemory vm1)(resultAddr \<mapsto> result)\<rparr>))
      in case (classicalMemory vm1 aAddr, classicalMemory vm1 bAddr) of
           (Some a, Some b) \<Rightarrow>
             (case comparison of
                EQ \<Rightarrow> setResult (if a = b then 1 else 0)
              | NEQ \<Rightarrow> setResult (if a \<noteq> b then 1 else 0)
              | LT \<Rightarrow> setResult (if a < b then 1 else 0)
              | GT \<Rightarrow> setResult (if a > b then 1 else 0))
         | _ \<Rightarrow> (Inl OperandsNotSet, vm1))"

text \<open>
  After a handler has returned, the step counts the instruction in its category and in
  \<open>instructionsExecuted\<close>; a handler that throws leaves the step at once.
\<close>

definition counted ::
  "('q BytecodeInterpreter \<Rightarrow> 'q BytecodeInterpreter) \<Rightarrow> (error + unit) \<times> 'q BytecodeInterpreter
     \<Rightarrow> (error + unit) \<times> 'q BytecodeInterpreter" where
  "counted category r =
     (case r of
        (Inl e, vm) \<Rightarrow> (Inl e, vm)
      | (Inr u, vm) \<Rightarrow>
          (Inr (), (category vm)\<lparr>instructionsExecuted := instructionsExecuted (category vm) + 1\<rparr>))"

definition quantumOp :: "'q BytecodeInterpreter \<Rightarrow> 'q BytecodeInterpreter" where
  "quantumOp vm = vm\<lparr>quantumOps := quantumOps vm + 1\<rparr>"

definition jumpOp :: "'q BytecodeInterpreter \<Rightarrow> 'q BytecodeInterpreter" where
  "jumpOp vm = vm\<lparr>jumpOps := jumpOps vm + 1\<rparr>"

definition classicalOp :: "'q BytecodeInterpreter \<Rightarrow> 'q BytecodeInterpreter" where
  "classicalOp vm = vm\<lparr>classicalOps := classicalOps vm + 1\<rparr>"

definition executeNextInstruction ::
  "'q handlers \<Rightarrow> 'q BytecodeInterpreter \<Rightarrow> (error + unit) \<times> 'q BytecodeInterpreter" where
  "executeNextInstruction quantum vm =
     (if pc vm \<ge> length (bytecode vm) then (Inr (), vm\<lparr>running := False\<rparr>)
      else
        let opcode = uint (bytecode vm ! pc vm);
            vm1 = vm\<lparr>pc := pc vm + 1\<rparr>
        in if opcode = 0x01 \<or> opcode = 0x02
              \<or> opcode = 0x10 \<or> opcode = 0x11 \<or> opcode = 0x12 \<or> opcode = 0x13 \<or> opcode = 0x14
              \<or> opcode = 0x15 \<or> opcode = 0x20 \<or> opcode = 0x21 \<or> opcode = 0x22
              \<or> opcode = 0x30 \<or> opcode = 0x31 \<or> opcode = 0x32 \<or> opcode = 0x40 \<or> opcode = 0x50
             then counted quantumOp (quantumInstruction quantum opcode vm1)
           else if opcode = 0x60 then counted jumpOp (executeConditionalJump vm1)
           else if opcode = 0x61 then counted jumpOp (executeJump vm1)
           else if opcode = 0x70 then counted classicalOp (executeStoreClassical vm1)
           else if opcode = 0x71 then counted classicalOp (executeLoadClassical vm1)
           else if opcode = 0x80 then counted classicalOp (executeClassicalOperation ADD vm1)
           else if opcode = 0x81 then counted classicalOp (executeClassicalOperation SUB vm1)
           else if opcode = 0x82 then counted classicalOp (executeClassicalOperation MUL vm1)
           else if opcode = 0x83 then counted classicalOp (executeClassicalOperation DIV vm1)
           else if opcode = 0x90 then counted classicalOp (executeClassicalOperation BitAND vm1)
           else if opcode = 0x91 then counted classicalOp (executeClassicalOperation BitOR vm1)
           else if opcode = 0x92 then counted classicalOp (executeClassicalOperation BitXOR vm1)
           else if opcode = 0x93 then counted classicalOp (executeClassicalOperation BitNOT vm1)
           else if opcode = 0xA0 then counted classicalOp (executeClassicalComparison EQ vm1)
           else if opcode = 0xA1 then counted classicalOp (executeClassicalComparison NEQ vm1)
           else if opcode = 0xA2 then counted classicalOp (executeClassicalComparison LT vm1)
           else if opcode = 0xA3 then counted classicalOp (executeClassicalComparison GT vm1)
           else if opcode = 0xFF then counted (\<lambda>vm. vm) (Inr (), vm1\<lparr>running := False\<rparr>)
           else (Inl UnknownOpcode, vm1))"

lemma counted_Inr:
  "counted category r = (Inr u, vm') \<Longrightarrow>
     \<exists>vm. r = (Inr (), vm)
        \<and> vm' = (category vm)\<lparr>instructionsExecuted := instructionsExecuted (category vm) + 1\<rparr>"
  by (cases r) (auto simp add: counted_def split: sum.splits)

lemma instructionsExecuted_quantumInstruction:
  "instructionsExecuted (snd (quantumInstruction quantum opcode vm)) = instructionsExecuted vm"
  by (simp add: quantumInstruction_def split: prod.splits)

lemma instructionsExecuted_executeConditionalJump:
  "instructionsExecuted (snd (executeConditionalJump vm)) = instructionsExecuted vm"
  by (simp add: executeConditionalJump_def Let_def split: sum.splits option.splits)

lemma instructionsExecuted_executeJump:
  "instructionsExecuted (snd (executeJump vm)) = instructionsExecuted vm"
  by (simp add: executeJump_def split: sum.splits)

lemma instructionsExecuted_executeStoreClassical:
  "instructionsExecuted (snd (executeStoreClassical vm)) = instructionsExecuted vm"
  by (simp add: executeStoreClassical_def Let_def split: sum.splits)

lemma instructionsExecuted_executeLoadClassical:
  "instructionsExecuted (snd (executeLoadClassical vm)) = instructionsExecuted vm"
  by (simp add: executeLoadClassical_def Let_def split: option.splits)

lemma instructionsExecuted_executeClassicalOperation:
  "instructionsExecuted (snd (executeClassicalOperation operation vm)) = instructionsExecuted vm"
  by (simp add: executeClassicalOperation_def Let_def split: option.splits operation.splits)

lemma instructionsExecuted_executeClassicalComparison:
  "instructionsExecuted (snd (executeClassicalComparison comparison vm)) = instructionsExecuted vm"
  by (simp add: executeClassicalComparison_def Let_def split: option.splits comparison.splits)

lemmas instructionsExecuted_handlers =
  instructionsExecuted_quantumInstruction instructionsExecuted_executeConditionalJump
  instructionsExecuted_executeJump instructionsExecuted_executeStoreClassical
  instructionsExecuted_executeLoadClassical instructionsExecuted_executeClassicalOperation
  instructionsExecuted_executeClassicalComparison

lemma counted_instructionsExecuted:
  assumes "counted category r = (Inr u, vm')"
    and "\<And>vm. instructionsExecuted (category vm) = instructionsExecuted vm"
    and "instructionsExecuted (snd r) = n"
  shows "instructionsExecuted vm' = Suc n"
  using counted_Inr [OF assms(1)] assms(2,3) by auto

lemma executeNextInstruction_counts:
  assumes "executeNextInstruction quantum vm = (Inr u, vm')" and "pc vm < length (bytecode vm)"
  shows "instructionsExecuted vm' = Suc (instructionsExecuted vm)"
  using assms
  by (auto simp add: executeNextInstruction_def Let_def quantumOp_def jumpOp_def classicalOp_def
      instructionsExecuted_handlers
      elim!: counted_instructionsExecuted split: if_splits)

text \<open>The loop of \<open>execute\<close>; an error leaves it with the state at the throw.\<close>

function run ::
  "'q handlers \<Rightarrow> nat \<Rightarrow> 'q BytecodeInterpreter \<Rightarrow> (error + unit) \<times> 'q BytecodeInterpreter" where
  "run quantum maxInstructions vm =
     (if running vm \<and> pc vm < length (bytecode vm) \<and> instructionsExecuted vm < maxInstructions
      then case executeNextInstruction quantum vm of
             (Inl e, vm') \<Rightarrow> (Inl e, vm')
           | (Inr u, vm') \<Rightarrow> run quantum maxInstructions vm'
      else (Inr (), vm))"
  by pat_completeness auto
termination
proof (relation "measure (\<lambda>(quantum, maxInstructions, vm). maxInstructions - instructionsExecuted vm)",
    goal_cases)
  case 1
  show ?case
    by simp
next
  case prems: 2
  show ?case
    using prems
    by (auto dest: executeNextInstruction_counts executeNextInstruction_counts [OF sym])
qed

declare run.simps [simp del]

text \<open>
  \<open>execute\<close> with the option \<open>maxInstructions\<close> (0 when it is not given). It throws only when no
  bytecode is loaded; an error of the loop is caught and stored. The result object is read off
  the returned state: \<open>success\<close> is \<open>error = None\<close>.
\<close>

definition execute ::
  "'q handlers \<Rightarrow> nat \<Rightarrow> 'q BytecodeInterpreter \<Rightarrow> error + 'q BytecodeInterpreter" where
  "execute quantum maxInstructionsOption vm =
     (if length (bytecode vm) = 0 then Inl NoBytecodeLoaded
      else
        let vm0 = vm\<lparr>running := True, pc := 0, error := None, instructionsExecuted := 0,
                      classicalOps := 0, quantumOps := 0, jumpOps := 0\<rparr>;
            maxInstructions = (if maxInstructionsOption = 0 then 2 ^ 53 - 1 else maxInstructionsOption)
        in case run quantum maxInstructions vm0 of
             (Inl e, vm') \<Rightarrow> Inr (vm'\<lparr>error := Some e, running := False\<rparr>)
           | (Inr u, vm') \<Rightarrow> Inr vm')"

section \<open>Properties of the kernels\<close>

subsection \<open>The arithmetic \<open>exact\<close>\<close>

text \<open>The operations of the arithmetic \<open>exact\<close>.\<close>

lemma exact_simps [simp]:
  "add_num exact = jadd" "sub_num exact = jsub" "mul_num exact = jmul" "div_num exact = jdiv"
  "sqrt_num exact = jsqrt" "abs_num exact = jabs" "lt_num exact = jlt" "gt_num exact = jgt"
  "eq0_num exact = is_zero_num" "zero_num exact = Num 0" "one_num exact = Num 1"
  "nan_num exact = NaN" "tiny_num exact = Num (1 / 10 ^ 10)"
  by (simp_all add: exact_def)

lemma complexZero_exact [simp]: "complexZero exact = czero"
  by (simp add: complexZero_def)

lemma complexOne_exact [simp]: "complexOne exact = cone"
  by (simp add: complexOne_def)

lemma divide_Number [simp]: "divide exact a (Number n) = Inr cnan"
  by simp

lemma jadd_zero_left [simp]: "jadd (Num 0) x = x"
  by (cases x) simp_all

lemma add_czero_left [simp]: "add exact czero a = a"
  by (cases a) (simp add: add_def)

subsection \<open>Bit positions\<close>

lemma bitValue_of_bool: "bitValue k i = of_bool (bit i k)"
  by (simp add: bitValue_def and_one_eq bit_iff_odd_drop_bit mod_2_eq_odd)

lemma flipBit_flip: "flipBit k i = flip_bit k i"
  by (simp add: flipBit_def flip_bit_eq_xor)

lemma bit_flipBit: "bit (flipBit k i) m = (if m = k then \<not> bit i k else bit i m)"
  by (auto simp add: flipBit_flip bit_flip_bit_iff)

lemma flipBit_invol [simp]: "flipBit k (flipBit k i) = i"
  by (rule bit_eqI) (simp add: bit_flipBit)

lemma flipBit_neq [simp]: "flipBit k i \<noteq> i"
  by (metis bit_flipBit)

lemma flipBit_neq2 [simp]: "i \<noteq> flipBit k i"
  by (metis bit_flipBit)

lemma nat_less_pow_iff_bits: "(i::nat) < 2 ^ n \<longleftrightarrow> (\<forall>m\<ge>n. \<not> bit i m)"
proof
  assume "i < 2 ^ n"
  then have "take_bit n i = i" by (rule take_bit_nat_eq_self)
  then have "bit i m \<Longrightarrow> m < n" for m by (metis bit_take_bit_iff)
  then show "\<forall>m\<ge>n. \<not> bit i m" by (meson not_le)
next
  assume h: "\<forall>m\<ge>n. \<not> bit i m"
  have "take_bit n i = i"
    by (rule bit_eqI) (use h in \<open>auto simp add: bit_take_bit_iff not_le [symmetric]\<close>)
  then show "i < 2 ^ n" by (simp add: take_bit_nat_eq_self_iff)
qed

lemma flipBit_less: "i < 2^n \<Longrightarrow> k < n \<Longrightarrow> flipBit k i < 2^n"
  by (auto simp add: nat_less_pow_iff_bits bit_flipBit)

lemma flipBit_gt: "\<not> bit i k \<Longrightarrow> i < flipBit k i"
  by (simp add: flipBit_flip flip_bit_eq_if set_bit_eq)

lemma flipBit_lt: "bit i k \<Longrightarrow> flipBit k i < i"
proof -
  assume b: "bit i k"
  have "i = flipBit k (flipBit k i)" by simp
  also have "\<dots> > flipBit k i" using b by (intro flipBit_gt) (simp add: bit_flipBit)
  finally show ?thesis .
qed

lemma foldE_append: "foldE f a (xs @ ys) = (case foldE f a xs of Inl e \<Rightarrow> Inl e | Inr b \<Rightarrow> foldE f b ys)"
  by (induction xs arbitrary: a) (auto split: sum.splits)

subsection \<open>Laws of the arithmetic\<close>

text \<open>
  The theorems on the kernels hold in every arithmetic with the laws they name, whatever
  its rounding. The doubles of the language have these laws, a double being taken up to
  the sign of zero, as \<open>===\<close> compares it, and with one \<open>NaN\<close>: the sum and the
  product of two doubles are the correctly rounded sum and product, which do not depend
  on the order of the operands, and \<open>0 + x\<close> is \<open>x\<close> for every double \<open>x\<close>. No
  operation of the modelled code tells the two zeros apart: the only division is that of
  \<open>ComplexNumber.divide\<close>, by a denominator that is not 0.
\<close>

definition commutativeOps :: "'n arithmetic \<Rightarrow> bool" where
  "commutativeOps A \<longleftrightarrow>
     (\<forall>x y. add_num A x y = add_num A y x) \<and> (\<forall>x y. mul_num A x y = mul_num A y x)"

definition zeroLeftNeutral :: "'n arithmetic \<Rightarrow> bool" where
  "zeroLeftNeutral A \<longleftrightarrow> (\<forall>x. add_num A (zero_num A) x = x)"

text \<open>
  A number is finite when it behaves against 0, 1 and itself as the finite doubles do:
  \<open>x * 1\<close>, \<open>x - 0\<close>, \<open>0 + x\<close> and \<open>x + 0\<close> are \<open>x\<close>, and \<open>x * 0\<close> and
  \<open>x - x\<close> are 0, none of them being rounded. An infinity and \<open>NaN\<close> are not finite:
  their product with 0 is \<open>NaN\<close>. An amplitude is finite when its two parts are.
\<close>

definition finiteNum :: "'n arithmetic \<Rightarrow> 'n \<Rightarrow> bool" where
  "finiteNum A x \<longleftrightarrow>
     mul_num A x (one_num A) = x \<and> mul_num A x (zero_num A) = zero_num A
     \<and> sub_num A x (zero_num A) = x \<and> sub_num A x x = zero_num A
     \<and> add_num A (zero_num A) x = x \<and> add_num A x (zero_num A) = x"


lemma multiply_comm: "commutativeOps A \<Longrightarrow> multiply A a b = multiply A b a"
  by (simp add: multiply_def commutativeOps_def)

lemma add_zero_left: "zeroLeftNeutral A \<Longrightarrow> add A (complexZero A) a = a"
  by (cases a) (simp add: add_def complexZero_def zeroLeftNeutral_def)






lemma jmul_comm: "jmul a b = jmul b a"
  by (cases a; cases b) simp_all

lemma jadd_comm: "jadd a b = jadd b a"
  by (cases a; cases b) simp_all

lemma jadd_zero_right [simp]: "jadd x (Num 0) = x"
  by (cases x) simp_all

lemma commutativeOps_exact: "commutativeOps exact"
  using jadd_comm jmul_comm by (simp add: commutativeOps_def)

lemma zeroLeftNeutral_exact: "zeroLeftNeutral exact"
  by (simp add: zeroLeftNeutral_def)

lemma finiteNum_exact [simp]: "finiteNum exact x \<longleftrightarrow> x \<noteq> NaN"
  by (cases x) (simp_all add: finiteNum_def)

subsection \<open>The single-qubit kernel\<close>

text \<open>
  \<open>sq_partial A k U v m p\<close> is the entry \<open>p\<close> of the new array after the main loop of
  \<open>applySingleQubitGate\<close> has run for the indices below \<open>m\<close>: the contributions of
  \<open>p\<close> and of its partner \<open>flipBit k p\<close>, each present once its index is below \<open>m\<close>,
  added in index order.
\<close>

definition sq_partial ::
  "'n arithmetic \<Rightarrow> nat \<Rightarrow> 'n ComplexNumber list list \<Rightarrow> 'n ComplexNumber list \<Rightarrow> nat \<Rightarrow> nat
   \<Rightarrow> 'n ComplexNumber" where
  "sq_partial A k U v m p =
     (let q = flipBit k p
      in if \<not> bit p k then
           (let c1 = (if p < m then multiply A (v ! p) (U ! 0 ! 0) else complexZero A)
            in if q < m then add A c1 (multiply A (v ! q) (U ! 0 ! 1)) else c1)
         else
           (let c1 = (if q < m then multiply A (v ! q) (U ! 1 ! 0) else complexZero A)
            in if p < m then add A c1 (multiply A (v ! p) (U ! 1 ! 1)) else c1))"

lemma sq_partial_0: "sq_partial A k U v 0 p = complexZero A"
  by (simp add: sq_partial_def Let_def)

lemma sq_step:
  assumes zl: "zeroLeftNeutral A" and m: "m < 2 ^ n" and k: "k < n"
  shows "singleQubitStep A k U v (map (sq_partial A k U v m) [0..<2 ^ n]) m
         = Inr (map (sq_partial A k U v (Suc m)) [0..<2 ^ n])"
proof -
  let ?q = "flipBit k m"
  let ?old = "map (sq_partial A k U v m) [0..<2 ^ n]"
  let ?new = "map (sq_partial A k U v (Suc m)) [0..<2 ^ n]"
  note z = add_zero_left [OF zl]
  have q: "?q < 2 ^ n" using m k by (rule flipBit_less)
  have neq: "?q \<noteq> m" by simp
  show ?thesis
  proof (cases "bit m k")
    case False
    then have gt: "m < ?q" by (rule flipBit_gt)
    have bq: "bit ?q k" using False by (simp add: bit_flipBit)
    have "?old[m := add A (?old ! m) (multiply A (v ! m) (U ! 0 ! 0)),
               ?q := add A (?old ! ?q) (multiply A (v ! m) (U ! 1 ! 0))] = ?new"
    proof (rule nth_equalityI)
      show "length (?old[m := add A (?old ! m) (multiply A (v ! m) (U ! 0 ! 0)),
               ?q := add A (?old ! ?q) (multiply A (v ! m) (U ! 1 ! 0))]) = length ?new"
        by simp
    next
      fix p assume "p < length (?old[m := add A (?old ! m) (multiply A (v ! m) (U ! 0 ! 0)),
               ?q := add A (?old ! ?q) (multiply A (v ! m) (U ! 1 ! 0))])"
      then have p: "p < 2 ^ n" by simp
      consider "p = m" | "p = ?q" | "p \<noteq> m" "p \<noteq> ?q" by blast
      then show "?old[m := add A (?old ! m) (multiply A (v ! m) (U ! 0 ! 0)),
               ?q := add A (?old ! ?q) (multiply A (v ! m) (U ! 1 ! 0))] ! p = ?new ! p"
      proof cases
        case 1
        then show ?thesis using m q gt False neq
          by (simp add: sq_partial_def Let_def z)
      next
        case 2
        then show ?thesis using m q gt bq neq
          by (simp add: sq_partial_def Let_def z)
      next
        case 3
        then have "flipBit k p \<noteq> m" by (metis flipBit_invol)
        then show ?thesis using 3 p m q
          by (simp add: sq_partial_def Let_def less_Suc_eq)
      qed
    qed
    then show ?thesis using False q
      by (simp add: singleQubitStep_def Let_def bitValue_of_bool)
  next
    case True
    then have lt: "?q < m" by (rule flipBit_lt)
    have bq: "\<not> bit ?q k" using True by (simp add: bit_flipBit)
    have "?old[?q := add A (?old ! ?q) (multiply A (v ! m) (U ! 0 ! 1)),
               m := add A (?old ! m) (multiply A (v ! m) (U ! 1 ! 1))] = ?new"
    proof (rule nth_equalityI)
      show "length (?old[?q := add A (?old ! ?q) (multiply A (v ! m) (U ! 0 ! 1)),
               m := add A (?old ! m) (multiply A (v ! m) (U ! 1 ! 1))]) = length ?new"
        by simp
    next
      fix p assume "p < length (?old[?q := add A (?old ! ?q) (multiply A (v ! m) (U ! 0 ! 1)),
               m := add A (?old ! m) (multiply A (v ! m) (U ! 1 ! 1))])"
      then have p: "p < 2 ^ n" by simp
      consider "p = m" | "p = ?q" | "p \<noteq> m" "p \<noteq> ?q" by blast
      then show "?old[?q := add A (?old ! ?q) (multiply A (v ! m) (U ! 0 ! 1)),
               m := add A (?old ! m) (multiply A (v ! m) (U ! 1 ! 1))] ! p = ?new ! p"
      proof cases
        case 1
        then show ?thesis using m q lt True neq
          by (simp add: sq_partial_def Let_def z)
      next
        case 2
        then show ?thesis using m q lt bq neq
          by (simp add: sq_partial_def Let_def z)
      next
        case 3
        then have "flipBit k p \<noteq> m" by (metis flipBit_invol)
        then show ?thesis using 3 p m q
          by (simp add: sq_partial_def Let_def less_Suc_eq)
      qed
    qed
    then show ?thesis using True q
      by (simp add: singleQubitStep_def Let_def bitValue_of_bool)
  qed
qed

lemma sq_loop:
  assumes zl: "zeroLeftNeutral A" and k: "k < n"
  shows "m \<le> 2 ^ n \<Longrightarrow> foldE (singleQubitStep A k U v) (zeros A (2 ^ n)) [0..<m]
         = Inr (map (sq_partial A k U v m) [0..<2 ^ n])"
proof (induction m)
  case 0
  show ?case by (simp add: zeros_def sq_partial_0 map_replicate_const)
next
  case (Suc m)
  then show ?case using k by (simp add: foldE_append sq_step [OF zl])
qed

text \<open>
  The vector the claim describes: each pair \<open>(a\<^sub>i, a\<^sub>j)\<close>, \<open>j\<close> being \<open>i\<close> with bit \<open>k\<close>
  set, replaced by \<open>(U\<^sub>0\<^sub>0 a\<^sub>i + U\<^sub>0\<^sub>1 a\<^sub>j, U\<^sub>1\<^sub>0 a\<^sub>i + U\<^sub>1\<^sub>1 a\<^sub>j)\<close>.
\<close>

definition pairTransform ::
  "'n arithmetic \<Rightarrow> nat \<Rightarrow> 'n ComplexNumber list list \<Rightarrow> 'n ComplexNumber list
   \<Rightarrow> 'n ComplexNumber list" where
  "pairTransform A k U a =
     map (\<lambda>p. if bitValue k p = 0
              then add A (multiply A (U ! 0 ! 0) (a ! p)) (multiply A (U ! 0 ! 1) (a ! flipBit k p))
              else add A (multiply A (U ! 1 ! 0) (a ! flipBit k p)) (multiply A (U ! 1 ! 1) (a ! p)))
         [0..<length a]"

lemma sq_partial_full:
  assumes co: "commutativeOps A" and len: "length v = 2 ^ n" and k: "k < n"
  shows "map (sq_partial A k U v (2 ^ n)) [0..<2 ^ n] = pairTransform A k U v"
proof -
  have "sq_partial A k U v (2 ^ n) p =
        (if bitValue k p = 0
         then add A (multiply A (U ! 0 ! 0) (v ! p)) (multiply A (U ! 0 ! 1) (v ! flipBit k p))
         else add A (multiply A (U ! 1 ! 0) (v ! flipBit k p)) (multiply A (U ! 1 ! 1) (v ! p)))"
    if "p < 2 ^ n" for p
    using that flipBit_less [OF that k]
    by (simp add: sq_partial_def Let_def bitValue_of_bool multiply_comm [OF co])
  then show ?thesis using len by (simp add: pairTransform_def)
qed

lemma singleQubit_loop:
  assumes co: "commutativeOps A" and zl: "zeroLeftNeutral A"
    and len: "length v = 2 ^ n" and k: "k < n"
  shows "foldE (singleQubitStep A k U v) (zeros A (length v)) [0..<length v]
         = Inr (pairTransform A k U v)"
  using sq_loop [OF zl k, of "2 ^ n" U v] sq_partial_full [OF co len k] len by simp

lemma length_pairTransform [simp]: "length (pairTransform A k U v) = length v"
  by (simp add: pairTransform_def)

text \<open>
  The test of \<open>normalize\<close>, negated: \<open>Math.abs(norm - 1) > precision\<close> is false, as the
  arithmetic computes it, so that \<open>normalize\<close> leaves the vector as it is.
\<close>

definition normWithinPrecision :: "'n arithmetic \<Rightarrow> 'n \<Rightarrow> 'n ComplexNumber list \<Rightarrow> bool" where
  "normWithinPrecision A eps v \<longleftrightarrow>
     \<not> gt_num A (abs_num A (sub_num A (sqrt_num A (normSquared A v)) (one_num A))) eps"

lemma normalize_noop:
  "normWithinPrecision A (precision s) (stateVector s) \<Longrightarrow> normalize A s = Inr s"
  by (simp add: normalize_def normWithinPrecision_def Let_def)

subsection \<open>The CNOT fast path\<close>

text \<open>
  \<open>cnotSource c t p\<close> is the index whose amplitude a CNOT with control \<open>c\<close> and target
  \<open>t\<close> moves to \<open>p\<close>, and \<open>cnotPermute\<close> the vector after the move;
  \<open>cnot_partial\<close> is the array both kernels have built after \<open>m\<close> iterations.
\<close>

definition cnotSource :: "nat \<Rightarrow> nat \<Rightarrow> nat \<Rightarrow> nat" where
  "cnotSource c t p = (if bit p c then flipBit t p else p)"

definition cnotPermute :: "nat \<Rightarrow> nat \<Rightarrow> 'a list \<Rightarrow> 'a list" where
  "cnotPermute c t v = map (\<lambda>p. v ! cnotSource c t p) [0..<length v]"










lemma length_cnotPermute [simp]: "length (cnotPermute c t v) = length v"
  by (simp add: cnotPermute_def)

subsection \<open>The generic two-qubit kernel on the CNOT matrix\<close>






















lemma upt_2: "[0..<2] = [0, 1]"
  by (simp add: upt_rec)

section \<open>The single-qubit kernel applies the matrix to every pair (C1)\<close>

text \<open>
  Claim C1 says that \<open>applySingleQubitGate(k, U)\<close>, for every state vector of \<open>2 ^ n\<close>
  amplitudes, every \<open>k < n\<close> and every 2x2 matrix \<open>U\<close>, produces the vector
  \<open>pairTransform k U\<close> of the old one: each pair \<open>(a\<^sub>i, a\<^sub>j)\<close>, \<open>j\<close> being \<open>i\<close> with bit
  \<open>k\<close> set, replaced by \<open>(U\<^sub>0\<^sub>0 a\<^sub>i + U\<^sub>0\<^sub>1 a\<^sub>j, U\<^sub>1\<^sub>0 a\<^sub>i + U\<^sub>1\<^sub>1 a\<^sub>j)\<close>.

  The kernel calls \<open>normalize\<close> on that vector before it stores it, so this holds
  only when \<open>normalize\<close> has nothing to do. The matrix \<open>twice\<close> (2 on the diagonal) on
  the one-qubit state \<open>|0\<rangle>\<close> gives a vector of norm 2, which \<open>normalize\<close> rescales;
  the stored vector is not \<open>(2, 0)\<close>. Every number of this run is one of 0, 1, 2 and 4
  until \<open>normalize\<close> divides, so the doubles compute what \<open>exact\<close> computes.
\<close>

definition twice :: "jsnum ComplexNumber list list" where
  "twice = [[ComplexNumber (Num 2) (Num 0), czero], [czero, ComplexNumber (Num 2) (Num 0)]]"

lemma twice_run:
  "applySingleQubitGate exact (newStateVector exact 1 (Num (1 / 10 ^ 10)) 32) 0 twice =
     Inr ((newStateVector exact 1 (Num (1 / 10 ^ 10)) 32)
            \<lparr>stateVector := [cnan, cnan], gateOperations := 1\<rparr>)"
  by (simp add: applySingleQubitGate_def validateQubitIndex_def validateGateMatrix_def twice_def
        newStateVector_def initializeStateVector_def invalidateProbabilityCache_def zeros_def
        upt_2 singleQubitStep_def bitValue_def flipBit_def multiply_def add_def Let_def
        normalize_def normSquared_def magnitudeSquared_def updateMemoryUsage_def)

lemma pairTransform_twice:
  "pairTransform exact 0 twice [cone, czero] = [ComplexNumber (Num 2) (Num 0), czero]"
  by (simp add: pairTransform_def upt_2 bitValue_def flipBit_def twice_def multiply_def add_def)

theorem applySingleQubitGate_any_matrix_counterexample:
  "\<not> (\<forall>s k U. length (stateVector s) = 2 ^ qubitCount s \<longrightarrow> k < qubitCount s \<longrightarrow>
         validateGateMatrix U 2 \<longrightarrow>
         (\<exists>s'. applySingleQubitGate exact s k U = Inr s'
               \<and> stateVector s' = pairTransform exact k U (stateVector s)))"
proof
  let ?s = "newStateVector exact 1 (Num (1 / 10 ^ 10)) 32"
  assume a: "\<forall>s k U. length (stateVector s) = 2 ^ qubitCount s \<longrightarrow> k < qubitCount s \<longrightarrow>
         validateGateMatrix U 2 \<longrightarrow>
         (\<exists>s'. applySingleQubitGate exact s k U = Inr s'
               \<and> stateVector s' = pairTransform exact k U (stateVector s))"
  have v: "stateVector ?s = [cone, czero]"
    by (simp add: newStateVector_def initializeStateVector_def)
  have 1: "length (stateVector ?s) = 2 ^ qubitCount ?s"
    by (simp add: newStateVector_def initializeStateVector_def)
  have 2: "0 < qubitCount ?s" by (simp add: newStateVector_def)
  have 3: "validateGateMatrix twice 2" by (simp add: validateGateMatrix_def twice_def)
  from a 1 2 3 obtain s' where
    "applySingleQubitGate exact ?s 0 twice = Inr s'"
    "stateVector s' = pairTransform exact 0 twice (stateVector ?s)"
    by blast
  then have "[cnan, cnan] = pairTransform exact 0 twice [cone, czero]"
    unfolding twice_run v by auto
  then show False unfolding pairTransform_twice by simp
qed

text \<open>
  C1 as amended: in every arithmetic whose addition and multiplication are commutative
  and in which 0 added on the left changes nothing, as in that of the doubles, for every
  state vector of \<open>2 ^ n\<close> amplitudes, every \<open>k < n\<close> and every 2x2 matrix \<open>U\<close> such
  that \<open>normalize\<close>, computing in this arithmetic, finds the norm of \<open>pairTransform k U\<close>
  of the vector within the precision of 1 (its test \<open>Math.abs(norm - 1) > precision\<close>
  is false), \<open>applySingleQubitGate(k, U)\<close> stores exactly \<open>pairTransform k U\<close> of the
  old vector, empties the probability cache and counts one gate operation.
\<close>

theorem applySingleQubitGate_pairs:
  assumes co: "commutativeOps A" and zl: "zeroLeftNeutral A"
    and len: "length (stateVector s) = 2 ^ qubitCount s"
    and k: "k < qubitCount s"
    and shape: "validateGateMatrix U 2"
    and norm: "normWithinPrecision A (precision s) (pairTransform A k U (stateVector s))"
  shows "applySingleQubitGate A s k U =
           Inr (s\<lparr>stateVector := pairTransform A k U (stateVector s), probabilityCache := [],
                  gateOperations := gateOperations s + 1,
                  memoryUsage := length (stateVector s) * 16\<rparr>)"
  using k shape singleQubit_loop [OF co zl len k] norm
  by (simp add: applySingleQubitGate_def validateQubitIndex_def
      invalidateProbabilityCache_def updateMemoryUsage_def Let_def normalize_noop)

text \<open>
  The gate X on the one-qubit state \<open>|0\<rangle>\<close>: the kernel stores \<open>|1\<rangle>\<close>. Every number of
  the run is 0 or 1.
\<close>

definition gateX :: "jsnum ComplexNumber list list" where
  \<comment> \<open>\<open>GATES.X\<close>\<close>
  "gateX = [[czero, cone], [cone, czero]]"

lemma pairTransform_X: "pairTransform exact 0 gateX [cone, czero] = [czero, cone]"
  by (simp add: pairTransform_def upt_2 bitValue_def flipBit_def gateX_def multiply_def add_def)

theorem applySingleQubitGate_pairs_witness:
  "commutativeOps exact \<and> zeroLeftNeutral exact
   \<and> length (stateVector (newStateVector exact 1 (Num (1 / 10 ^ 10)) 32))
     = 2 ^ qubitCount (newStateVector exact 1 (Num (1 / 10 ^ 10)) 32)
   \<and> 0 < qubitCount (newStateVector exact 1 (Num (1 / 10 ^ 10)) 32)
   \<and> validateGateMatrix gateX 2
   \<and> normWithinPrecision exact (precision (newStateVector exact 1 (Num (1 / 10 ^ 10)) 32))
        (pairTransform exact 0 gateX (stateVector (newStateVector exact 1 (Num (1 / 10 ^ 10)) 32)))
   \<and> applySingleQubitGate exact (newStateVector exact 1 (Num (1 / 10 ^ 10)) 32) 0 gateX =
       Inr ((newStateVector exact 1 (Num (1 / 10 ^ 10)) 32)
              \<lparr>stateVector := [czero, cone], gateOperations := 1\<rparr>)"
proof -
  let ?s = "newStateVector exact 1 (Num (1 / 10 ^ 10)) 32"
  have v: "stateVector ?s = [cone, czero]"
    by (simp add: newStateVector_def initializeStateVector_def)
  have 1: "length (stateVector ?s) = 2 ^ qubitCount ?s"
    by (simp add: newStateVector_def initializeStateVector_def)
  have 2: "0 < qubitCount ?s" by (simp add: newStateVector_def)
  have 3: "validateGateMatrix gateX 2" by (simp add: validateGateMatrix_def gateX_def)
  have 4: "normWithinPrecision exact (precision ?s) (pairTransform exact 0 gateX (stateVector ?s))"
    unfolding v pairTransform_X
    by (simp add: normWithinPrecision_def normSquared_def magnitudeSquared_def newStateVector_def)
  have 5: "applySingleQubitGate exact ?s 0 gateX =
       Inr (?s\<lparr>stateVector := [czero, cone], gateOperations := 1\<rparr>)"
    using applySingleQubitGate_pairs [OF commutativeOps_exact zeroLeftNeutral_exact 1 2 3 4]
    unfolding v pairTransform_X
    by (simp add: newStateVector_def)
  show ?thesis using commutativeOps_exact zeroLeftNeutral_exact 1 2 3 4 5 by blast
qed

section \<open>The CNOT fast path and the generic kernel (C4)\<close>










section \<open>Machines and states used as examples\<close>

definition defaultPrecision :: jsnum where
  \<comment> \<open>\<open>DEFAULT_CONFIG.precision\<close>, 1e-10\<close>
  "defaultPrecision = Num (1 / 10 ^ 10)"

definition freshVM :: "jsnum QVM" where
  "freshVM = initialize exact defaultPrecision 32 32"

definition ketZero :: "jsnum StateVector" where
  "ketZero = newStateVector exact 1 defaultPrecision 32"

definition vmOne :: "jsnum QVM" where
  "vmOne = freshVM
     \<lparr> stateVectorObj := ketZero,
       qubitRegistry := \<lparr> qubits = [(''q0'', 0)], entanglementGroups = [(''q0'', [''q0''])],
                          nextQubitIndex = 1, registryMaxQubits = 32 \<rparr> \<rparr>"

lemma allocate_first: "allocateQubit exact freshVM ''q0'' = (Inr ''q0'', vmOne)"
  by (simp add: allocateQubit_def freshVM_def initialize_def vmOne_def ketZero_def
      expandStateVector_def newStateVector_def initializeStateVector_def
      invalidateProbabilityCache_def updateMemoryUsage_def zeros_def Let_def)

lemma measure_ketZero:
  "measureQubit exact ketZero 0 (Num u) =
     Inr (if u < 1 then (0, ketZero\<lparr>stateVector := [cnan, czero]\<rparr>)
          else (1, ketZero\<lparr>stateVector := [czero, czero]\<rparr>))"
  by (simp add: measureQubit_def validateQubitIndex_def ketZero_def newStateVector_def
        initializeStateVector_def
        invalidateProbabilityCache_def measureProbs_def collapse_def bitValue_def
        magnitudeSquared_def zeros_def isZero_def updateMemoryUsage_def Let_def upt_2)

lemma getQubitIndex_vmOne: "getQubitIndex (qubitRegistry vmOne) (Str ''q0'') = Inr 0"
  by (simp add: getQubitIndex_def vmOne_def)

lemma stateVectorObj_vmOne: "stateVectorObj vmOne = ketZero"
  by (simp add: vmOne_def)

definition handles :: "nat \<Rightarrow> string" where
  "handles i = (if i = 0 then ''q0'' else if i = 1 then ''q1'' else ''q2'')"

definition ketZeroZero :: "jsnum StateVector" where
  "ketZeroZero = newStateVector exact 2 defaultPrecision 32"

definition vmTwo :: "jsnum QVM" where
  "vmTwo = freshVM
     \<lparr> stateVectorObj := ketZeroZero,
       qubitRegistry := \<lparr> qubits = [(''q0'', 0), (''q1'', 1)],
                          entanglementGroups = [(''q0'', [''q0'']), (''q1'', [''q1''])],
                          nextQubitIndex = 2, registryMaxQubits = 32 \<rparr> \<rparr>"

lemma allocate_second: "allocateQubit exact vmOne ''q1'' = (Inr ''q1'', vmTwo)"
  by (simp add: allocateQubit_def freshVM_def initialize_def vmOne_def vmTwo_def ketZero_def
      ketZeroZero_def expandStateVector_def newStateVector_def initializeStateVector_def
      invalidateProbabilityCache_def updateMemoryUsage_def zeros_def Let_def numeral_3_eq_3)

lemma allocateQubits_one: "allocateQubits exact freshVM 1 handles = (Inr [''q0''], vmOne)"
  by (simp add: allocateQubits_def handles_def allocate_first)

lemma allocateQubits_two: "allocateQubits exact freshVM 2 handles = (Inr [''q0'', ''q1''], vmTwo)"
  by (simp add: allocateQubits_def handles_def allocate_first allocate_second numeral_2_eq_2)

lemma getAllQubits_vmOne: "getAllQubits (qubitRegistry vmOne) = [''q0'']"
  by (simp add: getAllQubits_def vmOne_def)

lemma bitValue_Suc_forms [simp]:
  "bitValue 0 0 = 0" "bitValue 0 (Suc 0) = 1" "bitValue 0 (Suc (Suc 0)) = 0"
  "bitValue 0 (Suc (Suc (Suc 0))) = 1"
  "bitValue (Suc 0) 0 = 0" "bitValue (Suc 0) (Suc 0) = 0" "bitValue (Suc 0) (Suc (Suc 0)) = 1"
  "bitValue (Suc 0) (Suc (Suc (Suc 0))) = 1"
  by (simp_all add: bitValue_of_bool bit_Suc bit_0)

lemma measure_ketZeroZero:
  "u < 1 \<Longrightarrow> measureQubit exact ketZeroZero 0 (Num u) =
     Inr (0, ketZeroZero\<lparr>stateVector := [cnan, czero, czero, czero]\<rparr>)"
  by (simp add: measureQubit_def validateQubitIndex_def ketZeroZero_def newStateVector_def
        initializeStateVector_def numeral_3_eq_3
        invalidateProbabilityCache_def measureProbs_def collapse_def
        magnitudeSquared_def zeros_def isZero_def updateMemoryUsage_def Let_def)

lemma measure_after_first:
  "measureQubit exact (ketZeroZero\<lparr>stateVector := [cnan, czero, czero, czero]\<rparr>) (Suc 0) (Num u) =
     Inr (1, ketZeroZero\<lparr>stateVector := [czero, czero, czero, czero]\<rparr>)"
  by (simp add: measureQubit_def validateQubitIndex_def ketZeroZero_def newStateVector_def
        initializeStateVector_def numeral_3_eq_3
        invalidateProbabilityCache_def measureProbs_def collapse_def
        magnitudeSquared_def zeros_def isZero_def updateMemoryUsage_def Let_def)

lemma measureQubits_two:
  "rnd 0 < 1 \<Longrightarrow>
   fst (measureQubits exact vmTwo [''q0'', ''q1''] False (\<lambda>i. Num (rnd i)) clock)
     = Inr [(''q0'', 0), (''q1'', 1)]"
  by (simp add: measureQubits_def engineMeasureQubit_def getQubitIndex_def vmTwo_def
      measure_ketZeroZero measure_after_first Let_def)

section \<open>Normalisation of the reachable states (C2)\<close>

text \<open>
  The invariant of the data model: the squared magnitudes sum to 1 within the
  precision.
\<close>

fun jle :: "jsnum \<Rightarrow> jsnum \<Rightarrow> bool" where
  "jle (Num a) (Num b) = (a \<le> b)"
| "jle _ _ = False"

definition normInvariant :: "jsnum \<Rightarrow> jsnum ComplexNumber list \<Rightarrow> bool" where
  "normInvariant eps v \<longleftrightarrow> jle (jabs (jsub (normSquared exact v) (Num 1))) eps"

text \<open>
  Claim C2 says that every state vector the machine reaches from \<open>|0\<dots>0\<rangle>\<close> by
  allocations, unitary gates and measurements has a sum of squared magnitudes within
  the precision of 1.

  It fails after the first measurement. On a fresh machine, allocating one qubit and
  measuring it, whatever the random number \<open>u\<close> and the time \<open>now\<close>, leaves a state
  vector that is not normalised: the collapsing \<open>measureQubit\<close> divides the surviving
  amplitude by a plain number, which gives \<open>NaN + NaN i\<close> (for \<open>u < 1\<close> the vector is
  \<open>(NaN + NaN i, 0)\<close>, whose sum of squared magnitudes is \<open>NaN\<close>).
\<close>

theorem measurement_breaks_normalisation:
  "\<exists>r vm2. allocateQubit exact freshVM ''q0'' = (Inr ''q0'', vmOne)
      \<and> engineMeasureQubit exact vmOne ''q0'' False (Num u) now = (Inr r, vm2)
      \<and> \<not> normInvariant defaultPrecision (stateVector (stateVectorObj vm2))"
  by (simp add: allocate_first engineMeasureQubit_def getQubitIndex_vmOne stateVectorObj_vmOne
      measure_ketZero Let_def normInvariant_def normSquared_def magnitudeSquared_def
      defaultPrecision_def)

section \<open>The collapsing measurement (C3)\<close>

definition gateH :: "jsnum ComplexNumber list list" where
  \<comment> \<open>\<open>GATES.H\<close>\<close>
  "gateH = [[ComplexNumber (Num (1 / sqrt 2)) (Num 0), ComplexNumber (Num (1 / sqrt 2)) (Num 0)],
            [ComplexNumber (Num (1 / sqrt 2)) (Num 0), ComplexNumber (Num (- 1 / sqrt 2)) (Num 0)]]"

abbreviation chalf :: "jsnum ComplexNumber" where
  "chalf \<equiv> ComplexNumber (Num (1 / sqrt 2)) (Num 0)"

lemma pairTransform_H: "pairTransform exact 0 gateH [cone, czero] = [chalf, chalf]"
  by (simp add: pairTransform_def upt_2 bitValue_def flipBit_def gateH_def multiply_def add_def)

lemma H_run:
  "applySingleQubitGate exact (ketZero) 0 gateH =
     Inr ((ketZero)\<lparr>stateVector := [chalf, chalf], gateOperations := 1\<rparr>)"
proof -
  have v: "stateVector ketZero = [cone, czero]"
    by (simp add: ketZero_def newStateVector_def initializeStateVector_def)
  have len: "length [cone, czero] = 2 ^ 1" by simp
  have n: "normWithinPrecision exact (Num (1 / 10 ^ 10)) [chalf, chalf]"
    by (simp add: normWithinPrecision_def normSquared_def magnitudeSquared_def)
  have shape: "validateGateMatrix gateH 2" by (simp add: validateGateMatrix_def gateH_def)
  show ?thesis
    using singleQubit_loop [OF commutativeOps_exact zeroLeftNeutral_exact len, of 0 gateH] n shape
    by (simp add: pairTransform_H applySingleQubitGate_def validateQubitIndex_def ketZero_def
        defaultPrecision_def newStateVector_def
        initializeStateVector_def invalidateProbabilityCache_def updateMemoryUsage_def
        normalize_noop Let_def)
qed

lemma tiny_lt_half: "(1::real) / 10 ^ 10 < 1 / sqrt 2"
proof -
  have "sqrt 2 < 2" using real_sqrt_less_mono [of 2 4] by simp
  then have "1 / 2 < 1 / sqrt 2" by (simp add: frac_less2)
  then show ?thesis by simp
qed

lemma measure_after_H:
  "measureQubit exact ((ketZero)\<lparr>stateVector := [chalf, chalf], gateOperations := 1\<rparr>) 0
     (Num (3 / 10))
   = Inr (0, (ketZero)\<lparr>stateVector := [cnan, czero], gateOperations := 1\<rparr>)"
  using tiny_lt_half
  by (simp add: measureQubit_def validateQubitIndex_def ketZero_def newStateVector_def
        invalidateProbabilityCache_def measureProbs_def collapse_def bitValue_def
        magnitudeSquared_def zeros_def isZero_def updateMemoryUsage_def Let_def upt_2)

text \<open>
  Claim C3 says that \<open>measureQubit(k)\<close> returns 0 exactly when the random number is
  below the probability of 0, returns 0 or 1, zeroes the half of the vector that was
  not selected and divides every surviving amplitude by the square root of the
  probability of the outcome.

  The last part fails on the repository's own test of the collapse
  (tests/unit/state-vector.test.js, `should measure a qubit and collapse the state'):
  one qubit, the Hadamard gate, \<open>Math.random()\<close> fixed to 0.3. The outcome is 0 and the
  second amplitude is zeroed, but the surviving amplitude \<open>1/\<surd>2\<close> becomes
  \<open>NaN + NaN i\<close>, where the claim (and the test) expect 1: \<open>measureQubit\<close> passes the
  number \<open>\<surd>p\<close> to \<open>ComplexNumber.divide\<close>, which reads the \<open>real\<close> and \<open>imag\<close> of
  its argument.
\<close>

theorem measureQubit_collapse_gives_NaN:
  "applySingleQubitGate exact ketZero 0 gateH =
     Inr (ketZero\<lparr>stateVector := [chalf, chalf], gateOperations := 1\<rparr>)
   \<and> measureQubit exact (ketZero\<lparr>stateVector := [chalf, chalf], gateOperations := 1\<rparr>) 0
       (Num (3 / 10)) =
       Inr (0, ketZero\<lparr>stateVector := [cnan, czero], gateOperations := 1\<rparr>)"
  using H_run measure_after_H by blast

section \<open>SWAP through the gate executor (C7)\<close>

text \<open>
  Claim C7 says that \<open>applySWAP\<close> of the gate executor exchanges, for every index
  whose bits \<open>a\<close> and \<open>b\<close> differ, the amplitude with the one at the index with both
  bits toggled.

  The executor delegates to \<open>this.stateVector.applySWAP\<close>, which the state vector does
  not define (its unit test calls it all the same). On a machine with two qubits the
  call throws a \<open>TypeError\<close> and the machine is as before.
\<close>

theorem applySWAP_throws:
  "allocateQubits exact freshVM 2 handles = (Inr [''q0'', ''q1''], vmTwo)
   \<and> applySWAP vmTwo ''q0'' ''q1'' = (Inl (NotAFunction ''this.stateVector.applySWAP''), vmTwo)"
  by (simp add: allocateQubits_two applySWAP_def getQubitIndex_def vmTwo_def)

section \<open>Measuring every qubit (C8)\<close>

lemma getQubitIndex_Idx [simp]: "getQubitIndex r (Idx i) = Inl QubitNotFound"
  by (simp add: getQubitIndex_def)

lemma comparePairs_fails [simp]: "comparePairs r a b = Inl QubitNotFound"
  by (simp add: comparePairs_def)

lemma sortE_length: "sortE cmp xs = Inr ys \<Longrightarrow> length ys = length xs"
proof (induction xs arbitrary: ys)
  case Nil
  then show ?case by simp
next
  case (Cons x xs)
  have ins: "insertE cmp x zs = Inr ws \<Longrightarrow> length ws = Suc (length zs)" for zs ws
    by (induction zs arbitrary: ws) (auto split: sum.splits if_splits)
  from Cons show ?case by (auto split: sum.splits dest: ins)
qed

lemma insertE_fails: "xs \<noteq> [] \<Longrightarrow> insertE (\<lambda>a b. Inl e) x xs = Inl e"
  by (cases xs) simp_all

lemma sortE_error: "sortE (\<lambda>a b. Inl e) xs = Inl e' \<Longrightarrow> e' = e"
proof (induction xs arbitrary: e')
  case Nil
  then show ?case by simp
next
  case (Cons x xs)
  show ?case
  proof (cases "sortE (\<lambda>a b. Inl e) xs")
    case (Inl e'')
    then show ?thesis using Cons by simp
  next
    case (Inr ys)
    then have i: "insertE (\<lambda>a b. Inl e) x ys = Inl e'" using Cons.prems by simp
    then have "ys \<noteq> []" by auto
    then show ?thesis using i insertE_fails [of ys e x] by simp
  qed
qed

lemma sortE_fails:
  assumes "2 \<le> length xs"
  shows "sortE (\<lambda>a b. Inl e) xs = Inl e"
proof -
  from assms obtain x y zs where xs: "xs = x # y # zs"
    by (auto simp: numeral_2_eq_2 Suc_le_length_iff)
  show ?thesis
  proof (cases "sortE (\<lambda>a b. Inl e) (y # zs)")
    case (Inl e')
    then show ?thesis using sortE_error [OF Inl] xs by simp
  next
    case (Inr ys)
    then have "length ys = length (y # zs)" by (rule sortE_length)
    then have "ys \<noteq> []" by auto
    then show ?thesis using Inr xs insertE_fails [of ys e x] by simp
  qed
qed

lemma comparePairs_const: "comparePairs r = (\<lambda>a b. Inl QubitNotFound)"
  by (intro ext) simp

lemma sortE_single: "sortE cmp [x] = Inr [x]"
  by simp

lemma measureAllQubits_throws:
  assumes "getAllQubits (qubitRegistry vm) \<noteq> []"
  shows "\<exists>e. fst (measureAllQubits A vm rnd clock) = Inl e"
proof -
  let ?ids = "getAllQubits (qubitRegistry vm)"
  obtain res vm' where m: "measureQubits A vm ?ids False rnd clock = (res, vm')"
    by (cases "measureQubits A vm ?ids False rnd clock")
  show ?thesis
  proof (cases res)
    case (Inl e)
    then show ?thesis using m by (simp add: measureAllQubits_def Let_def)
  next
    case (Inr measurements)
    show ?thesis
    proof (cases "2 \<le> length ?ids")
      case True
      then have "sortE (comparePairs (qubitRegistry vm')) (enumerate 0 ?ids) = Inl QubitNotFound"
        unfolding comparePairs_const by (intro sortE_fails) simp
      then show ?thesis using m Inr by (simp add: measureAllQubits_def Let_def)
    next
      case False
      with assms obtain q where "?ids = [q]"
        by (cases ?ids; cases "tl ?ids") auto
      then show ?thesis using m Inr by (simp add: measureAllQubits_def Let_def)
    qed
  qed
qed

text \<open>
  Claim C8 says that \<open>measureAllQubits()\<close> measures every live handle and returns the
  string of the outcomes in the order of the bit positions, and that after a reset and
  the allocation of \<open>n\<close> qubits it returns the string of \<open>n\<close> zeros.

  It returns no string as soon as one handle is live. With one qubit the measurement
  succeeds and the construction of the string throws a \<open>TypeError\<close>: the loop looks
  the outcome up under the position of the handle in the array, finds \<open>undefined\<close> and
  calls \<open>toString\<close> on it. With two qubits the call throws as well
  (\<open>measureAllQubits_throws\<close>: the comparator of the sort looks the position up in the
  registry); and the two measurements it has made before give 0 and 1, not 0 and 0
  (\<open>measureQubits_two\<close>), since the amplitude left by the first is \<open>NaN + NaN i\<close>.
\<close>

theorem measureAllQubits_returns_no_string:
  "allocateQubits exact freshVM 1 handles = (Inr [''q0''], vmOne)
   \<and> fst (measureAllQubits exact vmOne (\<lambda>i. Num (rnd i)) clock)
       = Inl (UndefinedProperty ''toString'')
   \<and> allocateQubits exact freshVM 2 handles = (Inr [''q0'', ''q1''], vmTwo)
   \<and> (\<exists>e. fst (measureAllQubits exact vmTwo (\<lambda>i. Num (rnd i)) clock) = Inl e)"
proof -
  have 1: "fst (measureAllQubits exact vmOne (\<lambda>i. Num (rnd i)) clock)
             = Inl (UndefinedProperty ''toString'')"
    by (simp add: measureAllQubits_def getAllQubits_vmOne measureQubits_def
      engineMeasureQubit_def getQubitIndex_vmOne stateVectorObj_vmOne measure_ketZero Let_def)
  have "getAllQubits (qubitRegistry vmTwo) \<noteq> []"
    by (simp add: getAllQubits_def vmTwo_def)
  then have 2: "\<exists>e. fst (measureAllQubits exact vmTwo (\<lambda>i. Num (rnd i)) clock) = Inl e"
    by (rule measureAllQubits_throws)
  show ?thesis using 1 2 allocateQubits_one allocateQubits_two by blast
qed

section \<open>Allocation beyond the capacity (C9)\<close>

text \<open>
  \<open>cappedVM\<close> is the machine of \<open>initialize({maxQubits: 2})\<close>: the limit goes to the
  state vector, and the registry keeps the limit it reads from the environment, 32
  when \<open>QVM_MAX_QUBITS\<close> is not set. \<open>limited\<close> is a machine whose registry has the
  limit 2.
\<close>

definition cappedVM :: "jsnum QVM" where
  "cappedVM = initialize exact defaultPrecision 2 32"

definition capped1 :: "jsnum QVM" where "capped1 = snd (allocateQubit exact cappedVM ''q0'')"
definition capped2 :: "jsnum QVM" where "capped2 = snd (allocateQubit exact capped1 ''q1'')"
definition capped3 :: "jsnum QVM" where "capped3 = snd (allocateQubit exact capped2 ''q2'')"

definition limited :: "jsnum QVM" where
  "limited = initialize exact defaultPrecision 32 2"

lemma allocateQubits_partial:
  "fst (allocateQubits exact limited 3 handles) = Inl CannotAllocate
   \<and> qubits (qubitRegistry (snd (allocateQubits exact limited 3 handles))) = [(''q0'', 0), (''q1'', 1)]
   \<and> length (stateVector (stateVectorObj (snd (allocateQubits exact limited 3 handles)))) = 4
   \<and> qubits (qubitRegistry limited) = []
   \<and> length (stateVector (stateVectorObj limited)) = 1"
  by (simp add: allocateQubits_def limited_def initialize_def handles_def numeral_3_eq_3
      allocateQubit_def expandStateVector_def newStateVector_def initializeStateVector_def
      invalidateProbabilityCache_def updateMemoryUsage_def zeros_def Let_def)

text \<open>
  Claim C9 says that an allocation beyond the capacity fails before any state is
  mutated: with \<open>maxQubits = 2\<close> the third \<open>allocateQubit()\<close> errors and the state
  vector keeps its 4 amplitudes, and a failing allocation, also one the registry accepts
  and the state vector refuses, leaves the handle map of the registry and the state
  vector unchanged.

  On \<open>cappedVM\<close> the third \<open>allocateQubit()\<close> does throw, from \<open>expandStateVector\<close>,
  and the state vector keeps its 4 amplitudes; but the registry has recorded the third
  handle and advanced its counter before the call: its handle map has three entries
  after the failure. (A failing \<open>allocateQubits(3)\<close> on \<open>limited\<close> likewise keeps the
  two qubits it has allocated: \<open>allocateQubits_partial\<close>.)
\<close>

theorem third_allocation_mutates_registry:
  "fst (allocateQubit exact cappedVM ''q0'') = Inr ''q0''
   \<and> fst (allocateQubit exact capped1 ''q1'') = Inr ''q1''
   \<and> fst (allocateQubit exact capped2 ''q2'') = Inl CannotExpand
   \<and> length (stateVector (stateVectorObj capped2)) = 4
   \<and> length (stateVector (stateVectorObj capped3)) = 4
   \<and> qubits (qubitRegistry capped2) = [(''q0'', 0), (''q1'', 1)]
   \<and> qubits (qubitRegistry capped3) = [(''q0'', 0), (''q1'', 1), (''q2'', 2)]
   \<and> nextQubitIndex (qubitRegistry capped2) = 2
   \<and> nextQubitIndex (qubitRegistry capped3) = 3"
  by (simp add: capped3_def capped2_def capped1_def cappedVM_def initialize_def
      allocateQubit_def expandStateVector_def newStateVector_def initializeStateVector_def
      invalidateProbabilityCache_def updateMemoryUsage_def zeros_def Let_def)

section \<open>The non-collapsing measurement (C10)\<close>

lemma foldE_total:
  assumes "\<And>a x. x \<in> set xs \<Longrightarrow> \<exists>b. f a x = Inr b"
  shows "\<exists>r. foldE f a xs = Inr r"
  using assms
proof (induction xs arbitrary: a)
  case Nil
  show ?case by simp
next
  case (Cons x xs)
  from Cons.prems [of x a] obtain b where b: "f a x = Inr b" by auto
  from Cons.IH [of b] Cons.prems obtain r where "foldE f b xs = Inr r" by auto
  with b show ?case by simp
qed

lemma getProbability_returns:
  assumes live: "getQubitIndex (qubitRegistry vm) (Str h) = Inr k"
    and len: "length (stateVector (stateVectorObj vm)) = 2 ^ qubitCount (stateVectorObj vm)"
    and bit: "outcome = 0 \<or> outcome = 1"
  shows "\<exists>p. getProbability A vm h outcome = Inr p"
proof -
  have "\<exists>r. foldE (\<lambda>probability i.
                   if bitValue k i = outcome
                   then (case getAmplitude (stateVectorObj vm) i of
                           Inl e \<Rightarrow> Inl e
                         | Inr amplitude \<Rightarrow> Inr (add_num A probability (magnitudeSquared A amplitude)))
                   else Inr probability)
                (zero_num A) [0..<2 ^ qubitCount (stateVectorObj vm)] = Inr r"
    by (rule foldE_total) (use len in \<open>auto simp add: getAmplitude_def\<close>)
  then show ?thesis using live bit by (auto simp add: getProbability_def)
qed

text \<open>
  Claim C10: for every live handle \<open>h\<close>, \<open>measureQubit(h, true)\<close> of the measurement
  engine returns 0 or 1 and leaves the machine as it was: the state vector (with its
  probability cache), the registry, the stored results, the history and the metrics.
  The state vector has its \<open>2 ^ qubitCount\<close> amplitudes, as the class keeps it.
\<close>

theorem nonCollapsing_measure_changes_nothing:
  assumes live: "getQubitIndex (qubitRegistry vm) (Str h) = Inr k"
    and len: "length (stateVector (stateVectorObj vm)) = 2 ^ qubitCount (stateVectorObj vm)"
  shows "\<exists>r. engineMeasureQubit A vm h True u now = (Inr r, vm) \<and> (r = 0 \<or> r = 1)"
proof -
  from getProbability_returns [OF live len, of 0] obtain p0
    where p0: "getProbability A vm h 0 = Inr p0" by auto
  from getProbability_returns [OF live len, of 1] obtain p1
    where p1: "getProbability A vm h 1 = Inr p1" by auto
  show ?thesis using live p0 p1 by (simp add: engineMeasureQubit_def)
qed

theorem nonCollapsing_measure_changes_nothing_witness:
  "getQubitIndex (qubitRegistry vmOne) (Str ''q0'') = Inr 0
   \<and> length (stateVector (stateVectorObj vmOne)) = 2 ^ qubitCount (stateVectorObj vmOne)
   \<and> (\<exists>r. engineMeasureQubit exact vmOne ''q0'' True (Num (3 / 10)) 0 = (Inr r, vmOne)
          \<and> (r = 0 \<or> r = 1))"
proof -
  have len: "length (stateVector (stateVectorObj vmOne)) = 2 ^ qubitCount (stateVectorObj vmOne)"
    by (simp add: stateVectorObj_vmOne ketZero_def newStateVector_def initializeStateVector_def)
  show ?thesis
    using nonCollapsing_measure_changes_nothing [OF getQubitIndex_vmOne len, of exact "Num (3 / 10)" 0]
      getQubitIndex_vmOne len
    by blast
qed

section \<open>Decoding an encoded instruction (C5)\<close>

lemma from_le32_le32:
  "from_le32 (ucast w) (ucast (drop_bit 8 w)) (ucast (drop_bit 16 w)) (ucast (drop_bit 24 w))
     = (w :: 32 word)"
  unfolding from_le32_def
proof (rule bit_word_eqI)
  fix n assume n: "n < LENGTH(32)"
  consider "n < 8" | "8 \<le> n" "n < 16" | "16 \<le> n" "n < 24" | "24 \<le> n" "n < 32"
    using n by fastforce
  then show "bit (ucast (ucast w :: 8 word) OR push_bit 8 (ucast (ucast (drop_bit 8 w) :: 8 word)) OR
         push_bit 16 (ucast (ucast (drop_bit 16 w) :: 8 word)) OR
         push_bit 24 (ucast (ucast (drop_bit 24 w) :: 8 word)) :: 32 word) n = bit w n"
    by cases (auto simp add: bit_simps)
qed

lemma sint_word_of_int_32:
  "- (2 ^ 31) \<le> v \<Longrightarrow> v < 2 ^ 31 \<Longrightarrow> sint (word_of_int v :: 32 word) = v"
  by (simp add: sint_sbintrunc' signed_take_bit_int_eq_self)

lemma uint_word_of_int_32:
  "0 \<le> v \<Longrightarrow> v < 2 ^ 32 \<Longrightarrow> uint (word_of_int v :: 32 word) = v"
  by (simp add: uint_word_of_int take_bit_int_eq_self)

lemma uint_word_of_int_8:
  "0 \<le> v \<Longrightarrow> v \<le> 255 \<Longrightarrow> uint (word_of_int v :: 8 word) = v"
  by (simp add: uint_word_of_int take_bit_int_eq_self)

lemma switchCase_None_iff: "switchCase opc = None \<longleftrightarrow> opc \<notin> set QBCOpcode"
  by (simp add: switchCase_def QBCOpcode_def)

lemma inField_Byte: "inField Byte x \<longleftrightarrow> (\<exists>v. x = Integer v \<and> 0 \<le> v \<and> v \<le> 255)"
  by (cases x) simp_all

lemma inField_Angle: "inField Angle x \<longleftrightarrow> (\<exists>w. x = Float32 w \<and> \<not> f32_is_nan w)"
  by (cases x) simp_all

lemma inField_Target: "inField Target x \<longleftrightarrow> (\<exists>v. x = Integer v \<and> 0 \<le> v \<and> v < 2 ^ 32)"
  by (cases x) simp_all

lemma inField_Value: "inField Value x \<longleftrightarrow> (\<exists>v. x = Integer v \<and> - (2 ^ 31) \<le> v \<and> v < 2 ^ 31)"
  by (cases x) simp_all

lemmas inField_iff = inField_Byte inField_Angle inField_Target inField_Value

lemma get4_put4:
  "offset + 4 \<le> length buffer \<Longrightarrow> get4 (put4 buffer offset w) offset = w"
  by (simp add: get4_def put4_def le32_def from_le32_le32)

lemma put4_nth: "i < offset \<Longrightarrow> put4 buffer offset w ! i = buffer ! i"
  by (simp add: put4_def)

lemma length_put4 [simp]: "length (put4 buffer offset w) = length buffer"
  by (simp add: put4_def)

lemma put4_Nil [simp]: "put4 buffer offset w = [] \<longleftrightarrow> buffer = []"
  by (simp add: put4_def)

lemma length_setByte [simp]: "length (setByte buffer i v) = length buffer"
  by (simp add: setByte_def)

lemma length_alloc [simp]: "length (alloc n) = n"
  by (simp add: alloc_def)

lemma opcode_byte:
  assumes "opc \<in> set QBCOpcode"
  shows "uint (word_of_int opc :: 8 word) = opc"
proof -
  have "0 \<le> opc \<and> opc \<le> 255"
    using assms by (auto simp add: QBCOpcode_def)
  then show ?thesis
    by (simp add: uint_word_of_int_8)
qed

text \<open>The operands that the cases of the three \<open>switch\<close> statements write and read.\<close>

fun caseFields :: "opcase \<Rightarrow> field list" where
  "caseFields QubitManagement = [Byte]"
| "caseFields SingleQubitGates = [Byte]"
| "caseFields RotationGates = [Byte, Angle]"
| "caseFields TwoQubitGates = [Byte, Byte]"
| "caseFields ThreeQubitGates = [Byte, Byte, Byte]"
| "caseFields Measurement = [Byte, Byte]"
| "caseFields ConditionalJump = [Byte, Target]"
| "caseFields Jump = [Target]"
| "caseFields StoreClassical = [Byte, Value]"
| "caseFields LoadClassical = [Byte, Byte]"
| "caseFields BinaryOperations = [Byte, Byte, Byte]"
| "caseFields UnaryOperations = [Byte, Byte]"
| "caseFields NoParameters = []"

text \<open>
  The table lists the opcodes of \<open>QBCOpcode\<close>, in the same order, and every one of them
  falls in a case of the \<open>switch\<close> statements that handles the operands of its row.
\<close>

lemma instructionTable_opcodes: "map fst instructionTable = QBCOpcode"
  by (simp add: instructionTable_def QBCOpcode_def)

lemma instructionTable_switch:
  "list_all (\<lambda>opc. case switchCase opc of
                      None \<Rightarrow> False
                    | Some c \<Rightarrow> operandFields opc = caseFields c) QBCOpcode"
  by (simp add: QBCOpcode_def switchCase_def operandFields_def instructionTable_def)

lemma switchCase_listed:
  assumes "opc \<in> set QBCOpcode"
  obtains c where "switchCase opc = Some c" and "operandFields opc = caseFields c"
  using assms instructionTable_switch
  by (auto simp add: list_all_iff split: option.splits)

lemma encode_decode_case:
  assumes c: "switchCase opc = Some c"
    and ps: "list_all2 inField (caseFields c) ps"
  shows "\<exists>bytes. encodeInstruction \<lparr>op = opc, params = ps\<rparr> = Inr bytes
           \<and> decodeInstruction bytes 0 = Inr (\<lparr>op = opc, params = ps\<rparr>, length bytes)"
proof -
  have mem: "opc \<in> set QBCOpcode"
    using c switchCase_None_iff [of opc] by simp
  note b = opcode_byte [OF mem]
  note defs = encodeInstruction_def decodeInstruction_def getParameterSize_def decoded_def
    byteAt_def param_def setByte_def alloc_def eval_nat_numeral writeFloatLE_def writeUInt32LE_def
    writeInt32LE_def readFloatLE_def readUInt32LE_def readInt32LE_def get4_put4 put4_nth
    uint_word_of_int_8 uint_word_of_int_32 sint_word_of_int_32
  show ?thesis
  proof (cases c)
    case QubitManagement
    then obtain v where "ps = [Integer v]" "0 \<le> v" "v \<le> 255"
      using ps by (auto simp add: list_all2_Cons1 inField_iff)
    then show ?thesis
      using c mem b QubitManagement by (simp add: defs)
  next
    case SingleQubitGates
    then obtain v where "ps = [Integer v]" "0 \<le> v" "v \<le> 255"
      using ps by (auto simp add: list_all2_Cons1 inField_iff)
    then show ?thesis
      using c mem b SingleQubitGates by (simp add: defs)
  next
    case RotationGates
    then obtain v w where "ps = [Integer v, Float32 w]" "0 \<le> v" "v \<le> 255" "\<not> f32_is_nan w"
      using ps by (auto simp add: list_all2_Cons1 inField_iff)
    then show ?thesis
      using c mem b RotationGates by (simp add: defs)
  next
    case TwoQubitGates
    then obtain v w where "ps = [Integer v, Integer w]" "0 \<le> v" "v \<le> 255" "0 \<le> w" "w \<le> 255"
      using ps by (auto simp add: list_all2_Cons1 inField_iff)
    then show ?thesis
      using c mem b TwoQubitGates by (simp add: defs)
  next
    case ThreeQubitGates
    then obtain v w x where "ps = [Integer v, Integer w, Integer x]" "0 \<le> v" "v \<le> 255"
      "0 \<le> w" "w \<le> 255" "0 \<le> x" "x \<le> 255"
      using ps by (auto simp add: list_all2_Cons1 inField_iff)
    then show ?thesis
      using c mem b ThreeQubitGates by (simp add: defs)
  next
    case Measurement
    then obtain v w where "ps = [Integer v, Integer w]" "0 \<le> v" "v \<le> 255" "0 \<le> w" "w \<le> 255"
      using ps by (auto simp add: list_all2_Cons1 inField_iff)
    then show ?thesis
      using c mem b Measurement by (simp add: defs)
  next
    case ConditionalJump
    then obtain v w where "ps = [Integer v, Integer w]" "0 \<le> v" "v \<le> 255" "0 \<le> w" "w < 2 ^ 32"
      using ps by (auto simp add: list_all2_Cons1 inField_iff)
    then show ?thesis
      using c mem b ConditionalJump by (simp add: defs)
  next
    case Jump
    then obtain w where "ps = [Integer w]" "0 \<le> w" "w < 2 ^ 32"
      using ps by (auto simp add: list_all2_Cons1 inField_iff)
    then show ?thesis
      using c mem b Jump by (simp add: defs)
  next
    case StoreClassical
    then obtain v w where "ps = [Integer v, Integer w]" "0 \<le> v" "v \<le> 255"
      "- (2 ^ 31) \<le> w" "w < 2 ^ 31"
      using ps by (auto simp add: list_all2_Cons1 inField_iff)
    then show ?thesis
      using c mem b StoreClassical by (simp add: defs)
  next
    case LoadClassical
    then obtain v w where "ps = [Integer v, Integer w]" "0 \<le> v" "v \<le> 255" "0 \<le> w" "w \<le> 255"
      using ps by (auto simp add: list_all2_Cons1 inField_iff)
    then show ?thesis
      using c mem b LoadClassical by (simp add: defs)
  next
    case BinaryOperations
    then obtain v w x where "ps = [Integer v, Integer w, Integer x]" "0 \<le> v" "v \<le> 255"
      "0 \<le> w" "w \<le> 255" "0 \<le> x" "x \<le> 255"
      using ps by (auto simp add: list_all2_Cons1 inField_iff)
    then show ?thesis
      using c mem b BinaryOperations by (simp add: defs)
  next
    case UnaryOperations
    then obtain v w where "ps = [Integer v, Integer w]" "0 \<le> v" "v \<le> 255" "0 \<le> w" "w \<le> 255"
      using ps by (auto simp add: list_all2_Cons1 inField_iff)
    then show ?thesis
      using c mem b UnaryOperations by (simp add: defs)
  next
    case NoParameters
    then have "ps = []"
      using ps by simp
    then show ?thesis
      using c mem b NoParameters by (simp add: defs)
  qed
qed

lemma decode_unknown:
  assumes "offset < length buffer" and "uint (buffer ! offset) \<notin> set QBCOpcode"
  shows "decodeInstruction buffer offset = Inl UnknownOpcode"
  using assms switchCase_None_iff [of "uint (buffer ! offset)"]
  by (simp add: decodeInstruction_def byteAt_def)

definition rxInstruction :: instruction where
  "rxInstruction = \<lparr>op = 0x20, params = [Integer 3, Float32 0x3FC00000]\<rparr>"

lemma put4_numeral:
  "put4 [b0, b1, x2, x3, x4, x5] 2 w =
     [b0, b1, ucast w, ucast (drop_bit 8 w), ucast (drop_bit 16 w), ucast (drop_bit 24 w)]"
  by (simp add: put4_def le32_def numeral_2_eq_2 numeral_3_eq_3)

lemma encode_rx:
  "encodeInstruction rxInstruction = Inr [0x20, 0x03, 0x00, 0x00, 0xC0, 0x3F]"
proof -
  have "\<not> f32_is_nan 0x3FC00000"
    by (simp add: f32_is_nan_def f32_exponent_def)
  moreover have "alloc 6 = [0, 0, 0, 0, 0, 0]"
    by (simp add: alloc_def eval_nat_numeral)
  ultimately show ?thesis
    by (simp add: rxInstruction_def encodeInstruction_def QBCOpcode_def getParameterSize_def
      switchCase_def setByte_def param_def writeFloatLE_def put4_numeral)
qed

text \<open>
  Claim C5: for every instruction whose opcode is in the instruction table, with the
  operands of its row of the table (\<open>tableInstruction\<close>: qubit references and classical
  addresses that are bytes, an angle that is a 32-bit float other than \<open>NaN\<close>, a jump target and a
  stored value of 32 bits), \<open>encodeInstruction\<close> returns a buffer, and \<open>decodeInstruction\<close> at
  offset 0 of that buffer returns the same instruction, the same opcode and the same list
  of parameters, and has read the whole buffer. For every value that is not a listed
  opcode, \<open>encodeInstruction\<close> fails with 'Invalid opcode', and \<open>decodeInstruction\<close>
  fails with 'Unknown opcode' wherever the byte at its offset is not a listed opcode.
\<close>

theorem decodeInstruction_encodeInstruction:
  assumes "tableInstruction instr"
    and "opc \<notin> set QBCOpcode"
    and "offset < length buffer" and "uint (buffer ! offset) \<notin> set QBCOpcode"
  shows "(\<exists>bytes. encodeInstruction instr = Inr bytes
            \<and> decodeInstruction bytes 0 = Inr (instr, length bytes))
       \<and> encodeInstruction \<lparr>op = opc, params = ps\<rparr> = Inl InvalidOpcode
       \<and> decodeInstruction buffer offset = Inl UnknownOpcode"
proof -
  have listed: "op instr \<in> set QBCOpcode"
    and t: "list_all2 inField (operandFields (op instr)) (params instr)"
    using assms(1) by (simp_all add: tableInstruction_def)
  from listed obtain c where c: "switchCase (op instr) = Some c"
    and f: "operandFields (op instr) = caseFields c"
    by (rule switchCase_listed)
  have "instr = \<lparr>op = op instr, params = params instr\<rparr>"
    by simp
  with encode_decode_case [OF c t [unfolded f]]
  have "\<exists>bytes. encodeInstruction instr = Inr bytes
            \<and> decodeInstruction bytes 0 = Inr (instr, length bytes)"
    by simp
  moreover have "encodeInstruction \<lparr>op = opc, params = ps\<rparr> = Inl InvalidOpcode"
    using assms(2) by (simp add: encodeInstruction_def)
  ultimately show ?thesis
    using decode_unknown [OF assms(3,4)] by simp
qed

text \<open>
  Every listed opcode has instructions of the table, for instance the one whose operands
  are all 0.
\<close>

fun zeroOperand :: "field \<Rightarrow> operand" where
  "zeroOperand Angle = Float32 0"
| "zeroOperand _ = Integer 0"

lemma zeroOperand_inField: "list_all2 inField row (map zeroOperand row)"
proof (induction row)
  case Nil
  show ?case by simp
next
  case (Cons f row)
  have "inField f (zeroOperand f)"
    by (cases f) (simp_all add: f32_is_nan_def f32_exponent_def)
  then show ?case using Cons by simp
qed

lemma tableInstruction_zero:
  "opc \<in> set QBCOpcode \<Longrightarrow>
   tableInstruction \<lparr>op = opc, params = map zeroOperand (operandFields opc)\<rparr>"
  by (simp add: tableInstruction_def zeroOperand_inField)

definition allocInstruction :: instruction where
  "allocInstruction = \<lparr>op = 0x01, params = [Integer 7]\<rparr>"

definition storeInstruction :: instruction where
  "storeInstruction = \<lparr>op = 0x70, params = [Integer 2, Integer (- 7)]\<rparr>"

definition endInstruction :: instruction where
  "endInstruction = \<lparr>op = 0xFF, params = []\<rparr>"

theorem decodeInstruction_encodeInstruction_witness:
  "tableInstruction rxInstruction
   \<and> (\<exists>bytes. encodeInstruction rxInstruction = Inr bytes
          \<and> decodeInstruction bytes 0 = Inr (rxInstruction, length bytes))
   \<and> tableInstruction allocInstruction
   \<and> (\<exists>bytes. encodeInstruction allocInstruction = Inr bytes
          \<and> decodeInstruction bytes 0 = Inr (allocInstruction, length bytes))
   \<and> tableInstruction storeInstruction
   \<and> (\<exists>bytes. encodeInstruction storeInstruction = Inr bytes
          \<and> decodeInstruction bytes 0 = Inr (storeInstruction, length bytes))
   \<and> tableInstruction endInstruction
   \<and> (\<exists>bytes. encodeInstruction endInstruction = Inr bytes
          \<and> decodeInstruction bytes 0 = Inr (endInstruction, length bytes))
   \<and> encodeInstruction \<lparr>op = 0x03, params = [Integer 0]\<rparr> = Inl InvalidOpcode
   \<and> decodeInstruction [0x03, 0x00] 0 = Inl UnknownOpcode"
proof -
  note defs = tableInstruction_def QBCOpcode_def operandFields_def instructionTable_def
  have rx: "tableInstruction rxInstruction"
    by (simp add: defs rxInstruction_def f32_is_nan_def f32_exponent_def)
  have al: "tableInstruction allocInstruction"
    by (simp add: defs allocInstruction_def)
  have st: "tableInstruction storeInstruction"
    by (simp add: defs storeInstruction_def)
  have en: "tableInstruction endInstruction"
    by (simp add: defs endInstruction_def)
  have 2: "(0x03 :: int) \<notin> set QBCOpcode"
    by (simp add: QBCOpcode_def)
  have 3: "0 < length [0x03, 0x00 :: 8 word]"
    by simp
  have 4: "uint ([0x03, 0x00 :: 8 word] ! 0) \<notin> set QBCOpcode"
    by (simp add: QBCOpcode_def)
  show ?thesis
    using decodeInstruction_encodeInstruction [OF rx 2 3 4, of "[Integer 0]"]
      decodeInstruction_encodeInstruction [OF al 2 3 4, of "[Integer 0]"]
      decodeInstruction_encodeInstruction [OF st 2 3 4, of "[Integer 0]"]
      decodeInstruction_encodeInstruction [OF en 2 3 4, of "[Integer 0]"]
      rx al st en
    by simp
qed

section \<open>The classical ALU (C6)\<close>

definition truncatedQuotient :: "int \<Rightarrow> int \<Rightarrow> int" where
  "truncatedQuotient a b = sgn a * sgn b * (\<bar>a\<bar> div \<bar>b\<bar>)"

definition int32 :: "int \<Rightarrow> bool" where
  "int32 v \<longleftrightarrow> - (2 ^ 31) \<le> v \<and> v < 2 ^ 31"

definition noQuantum :: "unit handlers" where
  "noQuantum opcode code s = (Inr (), s)"

definition divProgram :: buffer where
  "divProgram =
     [0x70, 0x00, 0xF9, 0xFF, 0xFF, 0xFF,
      0x70, 0x01, 0x02, 0x00, 0x00, 0x00,
      0x83, 0x00, 0x01, 0x02,
      0xFF]"

definition divByZeroProgram :: buffer where
  "divByZeroProgram =
     [0x70, 0x00, 0x07, 0x00, 0x00, 0x00,
      0x70, 0x01, 0x00, 0x00, 0x00, 0x00,
      0x83, 0x00, 0x01, 0x02,
      0x70, 0x03, 0x01, 0x00, 0x00, 0x00,
      0xFF]"

definition stored :: "'q BytecodeInterpreter \<Rightarrow> int \<Rightarrow> 'q BytecodeInterpreter" where
  "stored vm result =
     vm\<lparr>pc := pc vm + 4,
        classicalMemory := (classicalMemory vm)(byteAt (bytecode vm) (pc vm + 3) \<mapsto> result),
        classicalOps := classicalOps vm + 1,
        instructionsExecuted := instructionsExecuted vm + 1\<rparr>"

lemmas interpreter_defs =
  execute_def loadBytecode_def BytecodeInterpreter_def executeNextInstruction_def
  executeStoreClassical_def executeClassicalOperation_def counted_def classicalOp_def
  readInt32LE_def get4_def from_le32_def byteAt_def alloc_def Let_def

definition addProgram :: buffer where
  "addProgram =
     [0x70, 0x00, 0xFF, 0xFF, 0xFF, 0x7F,
      0x70, 0x01, 0x01, 0x00, 0x00, 0x00,
      0x80, 0x00, 0x01, 0x02,
      0xFF]"

lemma run_divProgram:
  "execute noQuantum 0 (loadBytecode (BytecodeInterpreter ()) divProgram) =
     Inr \<lparr>pc = 17, bytecode = divProgram, running = False, error = None,
          classicalMemory = [Integer 0 \<mapsto> - 7, Integer 1 \<mapsto> 2, Integer 2 \<mapsto> - 4],
          quantumState = (), instructionsExecuted = 4, classicalOps = 3, quantumOps = 0,
          jumpOps = 0\<rparr>"
  by (simp add: interpreter_defs run.simps divProgram_def)

lemma run_divByZeroProgram:
  "execute noQuantum 0 (loadBytecode (BytecodeInterpreter ()) divByZeroProgram) =
     Inr \<lparr>pc = 16, bytecode = divByZeroProgram, running = False, error = Some DivisionByZero,
          classicalMemory = [Integer 0 \<mapsto> 7, Integer 1 \<mapsto> 0],
          quantumState = (), instructionsExecuted = 2, classicalOps = 2, quantumOps = 0,
          jumpOps = 0\<rparr>"
  by (simp add: interpreter_defs run.simps divByZeroProgram_def)

lemma run_addProgram:
  "execute noQuantum 0 (loadBytecode (BytecodeInterpreter ()) addProgram) =
     Inr \<lparr>pc = 17, bytecode = addProgram, running = False, error = None,
          classicalMemory = [Integer 0 \<mapsto> 2147483647, Integer 1 \<mapsto> 1, Integer 2 \<mapsto> 2147483648],
          quantumState = (), instructionsExecuted = 4, classicalOps = 3, quantumOps = 0,
          jumpOps = 0\<rparr>"
  by (simp add: interpreter_defs run.simps addProgram_def)

text \<open>
  Claim C6 says that the classical ALU computes on 32-bit signed integers, that \<open>DIV\<close>
  stores the quotient truncated toward zero, so that -7 divided by 2 gives -3, and that
  \<open>DIV\<close> by zero is an error that aborts the run.

  \<open>executeClassicalOperation\<close> computes \<open>Math.floor(a / b)\<close>, which rounds toward minus
  infinity. The program \<open>divProgram\<close> stores -7 at address 0 and 2 at address 1, divides
  the first by the second into address 2 and ends; it runs without an error and leaves -4
  at address 2, and the quotient truncated toward zero is -3.
\<close>

theorem DIV_truncates_toward_zero_counterexample:
  "\<exists>vm. execute noQuantum 0 (loadBytecode (BytecodeInterpreter ()) divProgram) = Inr vm
        \<and> error vm = None
        \<and> classicalMemory vm (Integer 0) = Some (- 7)
        \<and> classicalMemory vm (Integer 1) = Some 2
        \<and> classicalMemory vm (Integer 2) = Some (- 4)
        \<and> classicalMemory vm (Integer 2) \<noteq> Some (truncatedQuotient (- 7) 2)"
  by (simp add: run_divProgram truncatedQuotient_def)

lemma operation_step:
  assumes "pc vm + 3 < length (bytecode vm)"
    and "classicalMemory vm (byteAt (bytecode vm) (pc vm + 1)) = Some a"
    and "classicalMemory vm (byteAt (bytecode vm) (pc vm + 2)) = Some b"
  shows "uint (bytecode vm ! pc vm) = 0x80 \<Longrightarrow>
           executeNextInstruction quantum vm = (Inr (), stored vm (a + b))"
    and "uint (bytecode vm ! pc vm) = 0x81 \<Longrightarrow>
           executeNextInstruction quantum vm = (Inr (), stored vm (a - b))"
    and "uint (bytecode vm ! pc vm) = 0x83 \<Longrightarrow> b \<noteq> 0 \<Longrightarrow>
           executeNextInstruction quantum vm = (Inr (), stored vm (a div b))"
    and "uint (bytecode vm ! pc vm) = 0x83 \<Longrightarrow> b = 0 \<Longrightarrow>
           executeNextInstruction quantum vm = (Inl DivisionByZero, vm\<lparr>pc := pc vm + 4\<rparr>)"
  using assms
  by (simp_all add: executeNextInstruction_def executeClassicalOperation_def counted_def
        classicalOp_def stored_def Let_def floor_divide_of_int_eq numeral_3_eq_3 add.commute)

text \<open>
  C6 as amended: the classical ALU computes on JavaScript numbers and does not reduce a
  result to 32 bits. Let the next instruction of a running machine be \<open>ADD\<close> (0x80),
  \<open>SUB\<close> (0x81) or \<open>DIV\<close> (0x83) with its three address bytes, and let the two operand
  addresses hold the signed 32-bit values \<open>a\<close> and \<open>b\<close>. Then \<open>ADD\<close> stores \<open>a + b\<close> and
  \<open>SUB\<close> stores \<open>a - b\<close>, also when it is outside of the 32-bit range, and \<open>DIV\<close> with
  \<open>b\<close> other than 0 stores the quotient rounded toward minus infinity (-7 divided by 2
  gives -4); the step advances the program counter by 4 and counts one classical operation
  and one instruction, and the loop of \<open>execute\<close> goes on from that state. \<open>DIV\<close> with
  \<open>b = 0\<close> stores nothing and throws 'Division by zero', and the loop of \<open>execute\<close> ends
  with this error.
\<close>

theorem classical_arithmetic:
  assumes "running vm" and "instructionsExecuted vm < maxInstructions"
    and "pc vm + 3 < length (bytecode vm)"
    and "uint (bytecode vm ! pc vm) = opcode"
    and "opcode = 0x80 \<or> opcode = 0x81 \<or> opcode = 0x83"
    and "classicalMemory vm (byteAt (bytecode vm) (pc vm + 1)) = Some a"
    and "classicalMemory vm (byteAt (bytecode vm) (pc vm + 2)) = Some b"
    and "int32 a" and "int32 b"
  shows "executeNextInstruction quantum vm =
           (if opcode = 0x83 \<and> b = 0 then (Inl DivisionByZero, vm\<lparr>pc := pc vm + 4\<rparr>)
            else (Inr (), stored vm (if opcode = 0x80 then a + b
                                     else if opcode = 0x81 then a - b
                                     else a div b)))
       \<and> run quantum maxInstructions vm =
           (if opcode = 0x83 \<and> b = 0 then (Inl DivisionByZero, vm\<lparr>pc := pc vm + 4\<rparr>)
            else run quantum maxInstructions
                   (stored vm (if opcode = 0x80 then a + b
                               else if opcode = 0x81 then a - b
                               else a div b)))"
proof -
  note s = operation_step [OF assms(3,6,7), of quantum]
  have step: "executeNextInstruction quantum vm =
           (if opcode = 0x83 \<and> b = 0 then (Inl DivisionByZero, vm\<lparr>pc := pc vm + 4\<rparr>)
            else (Inr (), stored vm (if opcode = 0x80 then a + b
                                     else if opcode = 0x81 then a - b
                                     else a div b)))"
  proof -
    consider "opcode = 0x80" | "opcode = 0x81" | "opcode = 0x83" "b \<noteq> 0" | "opcode = 0x83" "b = 0"
      using assms(5) by blast
    then show ?thesis
    proof cases
      case 1
      then show ?thesis using s(1) assms(4) by simp
    next
      case 2
      then show ?thesis using s(2) assms(4) by simp
    next
      case 3
      then show ?thesis using s(3) assms(4) by simp
    next
      case 4
      then show ?thesis using s(4) assms(4) by simp
    qed
  qed
  have loop: "run quantum maxInstructions vm =
      (case executeNextInstruction quantum vm of
         (Inl e, vm') \<Rightarrow> (Inl e, vm')
       | (Inr u, vm') \<Rightarrow> run quantum maxInstructions vm')"
    using assms(1,2,3) by (subst run.simps) simp
  show ?thesis
    unfolding loop unfolding step by simp
qed

text \<open>
  The machine after the two \<open>STORE\<close> instructions of the programs above, with \<open>a\<close> at
  address 0 and \<open>b\<close> at address 1.
\<close>

definition afterStores :: "buffer \<Rightarrow> int \<Rightarrow> int \<Rightarrow> unit BytecodeInterpreter" where
  "afterStores code a b =
     \<lparr>pc = 12, bytecode = code, running = True, error = None,
      classicalMemory = [Integer 0 \<mapsto> a, Integer 1 \<mapsto> b],
      quantumState = (), instructionsExecuted = 2, classicalOps = 2, quantumOps = 0,
      jumpOps = 0\<rparr>"

theorem classical_arithmetic_witness:
  "running (afterStores divProgram (- 7) 2) \<and> int32 (- 7) \<and> int32 2
   \<and> uint (bytecode (afterStores divProgram (- 7) 2) ! pc (afterStores divProgram (- 7) 2)) = 0x83
   \<and> executeNextInstruction noQuantum (afterStores divProgram (- 7) 2)
       = (Inr (), stored (afterStores divProgram (- 7) 2) (- 4))
   \<and> executeNextInstruction noQuantum (afterStores addProgram 2147483647 1)
       = (Inr (), stored (afterStores addProgram 2147483647 1) 2147483648)
   \<and> \<not> int32 2147483648
   \<and> run noQuantum 5 (afterStores divByZeroProgram 7 0)
       = (Inl DivisionByZero, (afterStores divByZeroProgram 7 0)\<lparr>pc := 16\<rparr>)"
proof -
  have 1: "executeNextInstruction noQuantum (afterStores divProgram (- 7) 2)
     = (Inr (), stored (afterStores divProgram (- 7) 2) (- 4))"
    using classical_arithmetic [of "afterStores divProgram (- 7) 2" 5 "0x83" "- 7" 2 noQuantum]
    by (simp add: afterStores_def divProgram_def byteAt_def int32_def)
  have 2: "executeNextInstruction noQuantum (afterStores addProgram 2147483647 1)
     = (Inr (), stored (afterStores addProgram 2147483647 1) 2147483648)"
    using classical_arithmetic [of "afterStores addProgram 2147483647 1" 5 "0x80" 2147483647 1
        noQuantum]
    by (simp add: afterStores_def addProgram_def byteAt_def int32_def)
  have 3: "run noQuantum 5 (afterStores divByZeroProgram 7 0)
     = (Inl DivisionByZero, (afterStores divByZeroProgram 7 0)\<lparr>pc := 16\<rparr>)"
    using classical_arithmetic [of "afterStores divByZeroProgram 7 0" 5 "0x83" 7 0 noQuantum]
    by (simp add: afterStores_def divByZeroProgram_def byteAt_def int32_def)
  have 4: "running (afterStores divProgram (- 7) 2) \<and> int32 (- 7) \<and> int32 2
     \<and> uint (bytecode (afterStores divProgram (- 7) 2) ! pc (afterStores divProgram (- 7) 2)) = 0x83
     \<and> \<not> int32 2147483648"
    by (simp add: afterStores_def divProgram_def int32_def)
  show ?thesis
    using 1 2 3 4 by simp
qed

end
